theory Spec2Isabelle
  imports Main
begin

section \<open>Go values, errors and the application\<close>

text \<open>
  The package \<open>apis\<close> (file \<open>apis/base.go\<close>) wires the HTTP router of the record
  server. Go errors are values; the three kinds the custom error handler tells apart are
  the constructors of \<open>goerror\<close>. The message of an \<open>*echo.HTTPError\<close> is kept as the
  string that \<open>fmt.Sprintf("%v", v.Message)\<close> prints.
\<close>

datatype goerror =
    HTTPError int string "goerror option"
  | ApiError int string "goerror option"
  | PlainError string

text \<open>Values of Go's \<open>any\<close>, as far as the application cache holds them.\<close>

datatype anyval = AnyNil | AnyInt int | AnyString string | AnyBool bool

text \<open>
  \<open>core.App\<close> is an interface; the record holds what its methods answer in the current
  state of the process: \<open>app.Dao().TotalAdmins()\<close> (a count or an error),
  \<open>app.Cache()\<close> (a key-value store of \<open>any\<close>), \<open>app.IsDebug()\<close>, and the lines
  written with \<open>log.Println\<close> so far. A hook is the list of its handlers in
  registration order. The handlers that \<open>base.go\<close> adds to the two admin hooks are
  closures that call \<open>updateTotalAdminsCache\<close>; a hook is shared with the rest of the
  program, whose handlers are told apart by a number here (what they do is a parameter
  of \<open>Trigger\<close>).
\<close>

datatype hookHandler = UpdateTotalAdminsCacheHandler | OtherHandler nat

record App =
  TotalAdmins :: "goerror + int"
  Cache :: "string \<rightharpoonup> anyval"
  IsDebug :: bool
  LogLines :: "goerror option list"
  OnAdminAfterCreateRequest :: "hookHandler list"
  OnAdminAfterDeleteRequest :: "hookHandler list"

definition CacheHas :: "(string \<rightharpoonup> anyval) \<Rightarrow> string \<Rightarrow> bool" where
  "CacheHas m k = (m k \<noteq> None)"

definition CacheGet :: "(string \<rightharpoonup> anyval) \<Rightarrow> string \<Rightarrow> anyval" where
  "CacheGet m k = (case m k of None \<Rightarrow> AnyNil | Some v \<Rightarrow> v)"

definition CacheSet :: "(string \<rightharpoonup> anyval) \<Rightarrow> string \<Rightarrow> anyval \<Rightarrow> (string \<rightharpoonup> anyval)" where
  "CacheSet m k v = m(k \<mapsto> v)"

section \<open>The data model of the access rules\<close>

text \<open>
  The rule evaluator, the rule resolver and the auth context propagator are code of the
  repository that is not among the sources: \<open>base.go\<close> only installs
  \<open>LoadAuthContext\<close> and calls the functions that bind the record API. Their data and
  their operations are written from the specification.
\<close>

text \<open>
  Modelled from the spec: the data model of section 3 (\<open>Collection\<close>, \<open>Record\<close>,
  \<open>AuthContext\<close>, the filter AST); the packages that declare them are missing. A field
  value is a tagged value; a number is an integer here. A rule is absent, empty, or the
  parsed AST of a filter expression.
\<close>

datatype val =
    VNull
  | VBool bool
  | VNumber int
  | VText string
  | VDate string
  | VRelation "string list"
  | VJson string

datatype dataType = TText | TNumber | TBool | TDate | TRelation | TJson

datatype collectionType = BaseCollection | AuthCollection | ViewCollection

datatype cmpop = OpEq | OpNeq | OpGt | OpGte | OpLt | OpLte | OpLike | OpNotLike

datatype logop = LAnd | LOr

text \<open>
  The flag of a comparison says whether the operator is the any-of variant (the one
  written with a leading \<open>?\<close>). The path of an identifier is its list of segments.
\<close>

datatype ast =
    AlwaysTrue
  | Literal val
  | Identifier "string list"
  | Comparison cmpop bool ast ast
  | Logical logop ast ast
  | Group ast

datatype rule = Absent | Empty | Expression ast

record Field =
  fieldName :: string
  fieldType :: dataType
  required :: bool
  targetCollection :: "string option"

record Collection =
  collName :: string
  collType :: collectionType
  collFields :: "Field list"
  listRule :: rule
  viewRule :: rule
  createRule :: rule
  updateRule :: rule
  deleteRule :: rule

record Record =
  recCollection :: string
  recId :: string
  recCreated :: string
  recUpdated :: string
  recData :: "string \<rightharpoonup> val"

datatype kind = Guest | User | Admin

record AuthContext =
  kind :: kind
  authRecord :: "Record option"
  claims :: "string \<rightharpoonup> val"

text \<open>
  Modelled from the spec: the raw credential material of section 4.4 (absent, a user
  token, or an admin token); the middleware that reads it from the request is missing.
\<close>

datatype credential = NoCredential | UserToken string | AdminToken string

section \<open>Requests, responses and handlers\<close>

datatype body = NoBody | JSONBody goerror | FileBody string

record Request =
  ReqMethod :: string
  ReqQuery :: "string \<rightharpoonup> string list"
  ReqCredential :: credential

record Response =
  Committed :: bool
  Status :: int
  Location :: "string option"
  Payload :: body

text \<open>
  An \<open>echo.Context\<close>: the request, the response written so far, the path parameters of
  the matched route, the auth context that \<open>LoadAuthContext\<close> stores in the context
  (\<open>None\<close> before it has run), and whether the client can still be written to (a write
  to a client that has gone returns an error).
\<close>

record Context =
  CtxRequest :: Request
  CtxResponse :: Response
  PathParams :: "string \<rightharpoonup> string"
  CtxAuth :: "AuthContext option"
  ClientGone :: bool

text \<open>
  A handler runs against the application and the context, and returns its error (\<open>None\<close>
  for \<open>nil\<close>) with both as it leaves them.
\<close>

type_synonym HandlerFunc = "App \<Rightarrow> Context \<Rightarrow> goerror option \<times> App \<times> Context"
type_synonym MiddlewareFunc = "HandlerFunc \<Rightarrow> HandlerFunc"

definition StatusTemporaryRedirect :: int where
  "StatusTemporaryRedirect = 307"

definition ErrInvalidRedirectCode :: goerror where
  "ErrInvalidRedirectCode = PlainError ''invalid redirect status code''"

text \<open>
  \<open>c.Redirect(code, url)\<close> of echo: refuses a code outside 300..308, otherwise sets the
  \<open>Location\<close> header and writes the status. Writing the header of a response that is
  already committed changes nothing (echo logs a warning).
\<close>

definition WriteHeader :: "Context \<Rightarrow> int \<Rightarrow> Context" where
  "WriteHeader c code =
     (if Committed (CtxResponse c) then c
      else c\<lparr>CtxResponse := (CtxResponse c)\<lparr>Committed := True, Status := code\<rparr>\<rparr>)"

definition Redirect :: "Context \<Rightarrow> int \<Rightarrow> string \<Rightarrow> goerror option \<times> Context" where
  "Redirect c code url =
     (if code < 300 \<or> code > 308 then (Some ErrInvalidRedirectCode, c)
      else (None, WriteHeader (c\<lparr>CtxResponse := (CtxResponse c)\<lparr>Location := Some url\<rparr>\<rparr>) code))"

section \<open>The cache of the number of admins\<close>

definition totalAdminsCacheKey :: string where
  "totalAdminsCacheKey = ''totalAdmins''"

definition updateTotalAdminsCache :: "App \<Rightarrow> goerror option \<times> App" where
  "updateTotalAdminsCache app =
     (case TotalAdmins app of
        Inl err \<Rightarrow> (Some err, app)
      | Inr total' \<Rightarrow>
          (None, app\<lparr>Cache := CacheSet (Cache app) totalAdminsCacheKey (AnyInt total')\<rparr>))"

text \<open>
  \<open>installerRedirect(app)\<close> first adds one handler to each of the two admin hooks, then
  returns the middleware. The two steps are two definitions: the registration changes the
  application, the middleware is a function of the next handler. \<open>cast.ToInt\<close> belongs to
  a library outside the repository; it is the parameter \<open>ToInt\<close>.
\<close>

definition installerRedirectHooks :: "App \<Rightarrow> App" where
  "installerRedirectHooks app =
     app\<lparr>OnAdminAfterCreateRequest := OnAdminAfterCreateRequest app @ [UpdateTotalAdminsCacheHandler],
         OnAdminAfterDeleteRequest := OnAdminAfterDeleteRequest app @ [UpdateTotalAdminsCacheHandler]\<rparr>"

definition installerRedirect :: "(anyval \<Rightarrow> int) \<Rightarrow> MiddlewareFunc" where
  "installerRedirect ToInt next app c =
     (case (if \<not> CacheHas (Cache app) totalAdminsCacheKey
            then updateTotalAdminsCache app else (None, app)) of
        (Some err, app') \<Rightarrow> (Some err, app', c)
      | (None, app') \<Rightarrow>
          (let totalAdmins = ToInt (CacheGet (Cache app') totalAdminsCacheKey);
               hasInstallerParam = (ReqQuery (CtxRequest c) ''installer'' \<noteq> None)
           in if totalAdmins = 0 \<and> \<not> hasInstallerParam
              then (case Redirect c StatusTemporaryRedirect ''/_/?installer#'' of
                      (e, c') \<Rightarrow> (e, app', c'))
              else if totalAdmins \<noteq> 0 \<and> hasInstallerParam
              then (case Redirect c StatusTemporaryRedirect ''/_/#/'' of
                      (e, c') \<Rightarrow> (e, app', c'))
              else next app' c))"

text \<open>
  Modelled from the spec: the hooks of section 9 (registered at startup, fired
  synchronously on the triggering mutation); the package \<open>tools/hook\<close> is missing from
  the sources. \<open>Trigger\<close> runs the handlers in the order they were added, in the
  caller's own control flow. The run ends when every handler has returned no error, or at
  the first handler that returns one: the error value \<open>hook.StopPropagation\<close> ends the
  run without failing it, any other error is the error of the trigger. A handler of the
  rest of the program may do anything to the application and return anything.
\<close>

type_synonym OtherHandlers = "nat \<Rightarrow> App \<Rightarrow> goerror option \<times> App"

definition StopPropagation :: goerror where
  "StopPropagation = PlainError ''Event hook propagation stopped''"

datatype runEnd = Completed | Stopped | Failed goerror

fun runHandler :: "OtherHandlers \<Rightarrow> hookHandler \<Rightarrow> App \<Rightarrow> goerror option \<times> App" where
  "runHandler others UpdateTotalAdminsCacheHandler app = updateTotalAdminsCache app"
| "runHandler others (OtherHandler i) app = others i app"

fun runHandlers :: "OtherHandlers \<Rightarrow> hookHandler list \<Rightarrow> App \<Rightarrow> runEnd \<times> App" where
  "runHandlers others [] app = (Completed, app)"
| "runHandlers others (h # hs) app =
     (case runHandler others h app of
        (None, app') \<Rightarrow> runHandlers others hs app'
      | (Some err, app') \<Rightarrow> (if err = StopPropagation then Stopped else Failed err, app'))"

definition Trigger :: "OtherHandlers \<Rightarrow> hookHandler list \<Rightarrow> App \<Rightarrow> goerror option \<times> App" where
  "Trigger others hs app =
     (case runHandlers others hs app of
        (Failed err, app') \<Rightarrow> (Some err, app')
      | (Completed, app') \<Rightarrow> (None, app')
      | (Stopped, app') \<Rightarrow> (None, app'))"

section \<open>The custom error handler of \<open>InitApi\<close>\<close>

text \<open>
  The packages \<open>tools/rest\<close> and \<open>tools/inflector\<close> are not among the sources, and the
  specification does not describe them. Their functions are taken as their names and
  Go's \<open>net/http\<close> constants say: \<open>NewApiError\<close> builds the \<open>*rest.ApiError\<close> with the
  given status and the message made a sentence (surrounding space trimmed, first letter
  in upper case, a final full stop unless the message ends in \<open>.\<close>, \<open>?\<close> or \<open>!\<close>);
  \<open>NewBadRequestError\<close> is \<open>NewApiError\<close> at \<open>http.StatusBadRequest\<close>, with a default
  message for an empty one. Letters are ASCII letters here.
\<close>

definition isSpace :: "char \<Rightarrow> bool" where
  "isSpace c = ((of_char c :: nat) \<in> {9, 10, 11, 12, 13, 32})"

definition TrimSpace :: "string \<Rightarrow> string" where
  "TrimSpace s = rev (dropWhile isSpace (rev (dropWhile isSpace s)))"

definition UcFirst :: "string \<Rightarrow> string" where
  "UcFirst s =
     (case s of
        [] \<Rightarrow> []
      | c # cs \<Rightarrow>
          (if 97 \<le> (of_char c :: nat) \<and> (of_char c :: nat) \<le> 122
           then char_of ((of_char c :: nat) - 32) # cs
           else c # cs))"

definition Sentenize :: "string \<Rightarrow> string" where
  "Sentenize str =
     (let t = TrimSpace str
      in if t = [] then []
         else if last (UcFirst t) \<in> set ''.?!'' then UcFirst t
         else UcFirst t @ ''.'')"

definition StatusBadRequest :: int where
  "StatusBadRequest = 400"

definition MethodHead :: string where
  "MethodHead = ''HEAD''"

definition NewApiError :: "int \<Rightarrow> string \<Rightarrow> goerror option \<Rightarrow> goerror" where
  "NewApiError status message rawErrData =
     ApiError status (TrimSpace (Sentenize message)) rawErrData"

definition NewBadRequestError :: "string \<Rightarrow> goerror option \<Rightarrow> goerror" where
  "NewBadRequestError message rawErrData =
     NewApiError StatusBadRequest
       (if message = [] then ''Something went wrong while processing your request.'' else message)
       rawErrData"

fun ApiCode :: "goerror \<Rightarrow> int" where
  "ApiCode (ApiError code message rawData) = code"
| "ApiCode (HTTPError code message internal) = code"
| "ApiCode (PlainError message) = 0"

definition Println :: "App \<Rightarrow> goerror option \<Rightarrow> App" where
  "Println app v = app\<lparr>LogLines := LogLines app @ [v]\<rparr>"

definition ErrWrite :: goerror where
  "ErrWrite = PlainError ''write: broken pipe''"

text \<open>
  \<open>c.NoContent(code)\<close> of echo writes the header and returns no error. \<open>c.JSON(code, v)\<close>
  writes the header, which commits the status, and then the body; the write of the body
  fails when the client has gone, and the status stays committed.
\<close>

definition NoContent :: "Context \<Rightarrow> int \<Rightarrow> goerror option \<times> Context" where
  "NoContent c code = (None, WriteHeader c code)"

definition JSON :: "Context \<Rightarrow> int \<Rightarrow> goerror \<Rightarrow> goerror option \<times> Context" where
  "JSON c code v =
     (if ClientGone c then (Some ErrWrite, WriteHeader c code)
      else (None, (WriteHeader c code)\<lparr>CtxResponse :=
                     (CtxResponse (WriteHeader c code))\<lparr>Payload := JSONBody v\<rparr>\<rparr>))"

text \<open>
  \<open>e.HTTPErrorHandler\<close> as \<open>InitApi\<close> sets it (lines 34 to 73). The type switch is the
  case distinction on \<open>err\<close>; a \<open>nil\<close> error takes the default branch. The last
  \<open>log.Println\<close> prints \<open>err\<close>, not \<open>cErr\<close>, as the source does.
\<close>

definition HTTPErrorHandler :: "App \<Rightarrow> Context \<Rightarrow> goerror option \<Rightarrow> App \<times> Context" where
  "HTTPErrorHandler app c err =
     (if Committed (CtxResponse c) then (app, c)
      else
        (case (case err of
                 Some (HTTPError code message internal) \<Rightarrow>
                   (if internal \<noteq> None \<and> IsDebug app then Println app internal else app,
                    NewApiError code message err)
               | Some (ApiError code message rawData) \<Rightarrow>
                   (if IsDebug app \<and> rawData \<noteq> None then Println app rawData else app,
                    ApiError code message rawData)
               | _ \<Rightarrow>
                   (if err \<noteq> None \<and> IsDebug app then Println app err else app,
                    NewBadRequestError [] err)) of
           (app', apiErr) \<Rightarrow>
             (case (if ReqMethod (CtxRequest c) = MethodHead
                    then NoContent c (ApiCode apiErr)
                    else JSON c (ApiCode apiErr) apiErr) of
                (cErr, c') \<Rightarrow>
                  (if cErr \<noteq> None \<and> IsDebug app then Println app' err else app', c'))))"

text \<open>
  The errors of the default branch: \<open>nil\<close> and every error that is neither an
  \<open>*echo.HTTPError\<close> nor a \<open>*rest.ApiError\<close>.
\<close>

fun otherError :: "goerror option \<Rightarrow> bool" where
  "otherError None = True"
| "otherError (Some (PlainError message)) = True"
| "otherError (Some (HTTPError code message internal)) = False"
| "otherError (Some (ApiError code message rawData)) = False"

definition isServerError :: "int \<Rightarrow> bool" where
  "isServerError code = (500 \<le> code \<and> code \<le> 599)"

section \<open>Static files\<close>

text \<open>
  \<open>StaticDirectoryHandler\<close> uses Go's standard library: \<open>strings.TrimPrefix\<close>,
  \<open>url.PathUnescape\<close>, \<open>filepath.Clean\<close>, \<open>filepath.ToSlash\<close> and the \<open>io/fs\<close>
  rules for file names. They are written out here as the library documents them, for a
  system whose path separator is the slash (so \<open>ToSlash\<close> changes nothing). Strings are
  byte strings, as in Go.
\<close>

definition HasPrefix :: "string \<Rightarrow> string \<Rightarrow> bool" where
  "HasPrefix s pre = (take (length pre) s = pre)"

definition TrimPrefix :: "string \<Rightarrow> string \<Rightarrow> string" where
  "TrimPrefix s pre = (if take (length pre) s = pre then drop (length pre) s else s)"

definition ishex :: "char \<Rightarrow> bool" where
  "ishex c = (c \<in> set ''0123456789abcdefABCDEF'')"

definition unhex :: "char \<Rightarrow> nat" where
  "unhex c =
     (if c \<in> set ''0123456789'' then of_char c - 48
      else if c \<in> set ''abcdef'' then of_char c - 87
      else if c \<in> set ''ABCDEF'' then of_char c - 55
      else 0)"

text \<open>
  \<open>url.PathUnescape\<close>: every \<open>%\<close> must be followed by two hexadecimal digits, and the
  three bytes stand for one; a \<open>+\<close> stays a \<open>+\<close>. A bad escape is an error.
\<close>

fun PathUnescape :: "string \<Rightarrow> goerror + string" where
  "PathUnescape [] = Inr []"
| "PathUnescape (c # cs) =
     (if c = CHR ''%'' then
        (case cs of
           h1 # h2 # rest \<Rightarrow>
             (if ishex h1 \<and> ishex h2
              then (case PathUnescape rest of
                      Inl err \<Rightarrow> Inl err
                    | Inr r \<Rightarrow> Inr (char_of (unhex h1 * 16 + unhex h2) # r))
              else Inl (PlainError (''invalid URL escape '' @ take 3 (c # cs))))
         | _ \<Rightarrow> Inl (PlainError (''invalid URL escape '' @ c # cs)))
      else (case PathUnescape cs of Inl err \<Rightarrow> Inl err | Inr r \<Rightarrow> Inr (c # r)))"

text \<open>The elements of a path: \<open>strings.Split(s, "/")\<close>, and its inverse.\<close>

fun splitSlash :: "string \<Rightarrow> string list" where
  "splitSlash [] = [[]]"
| "splitSlash (c # cs) =
     (if c = CHR ''/'' then [] # splitSlash cs
      else (case splitSlash cs of x # xs \<Rightarrow> (c # x) # xs | [] \<Rightarrow> [[c]]))"

fun joinSlash :: "string list \<Rightarrow> string" where
  "joinSlash [] = []"
| "joinSlash [x] = x"
| "joinSlash (x # y # ys) = x @ CHR ''/'' # joinSlash (y # ys)"

text \<open>
  \<open>filepath.Clean\<close> works through the elements from left to right, \<open>out\<close> being the
  elements kept so far, last one first: an empty element and \<open>.\<close> are dropped; \<open>..\<close>
  removes the element before it, unless there is none or it is itself \<open>..\<close>, and then
  it is dropped on a rooted path and kept on a relative one; any other element is kept.
  The empty result is \<open>.\<close>.
\<close>

fun cleanElems :: "bool \<Rightarrow> string list \<Rightarrow> string list \<Rightarrow> string list" where
  "cleanElems rooted out [] = rev out"
| "cleanElems rooted out (e # es) =
     (if e = [] \<or> e = ''.'' then cleanElems rooted out es
      else if e = ''..'' then
        (case out of
           x # xs \<Rightarrow> (if x = ''..'' then cleanElems rooted (''..'' # out) es
                       else cleanElems rooted xs es)
         | [] \<Rightarrow> (if rooted then cleanElems rooted [] es
                   else cleanElems rooted [''..''] es))
      else cleanElems rooted (e # out) es)"

definition Clean :: "string \<Rightarrow> string" where
  "Clean path =
     (if path = [] then ''.''
      else let rooted = (hd path = CHR ''/'');
               out = joinSlash (cleanElems rooted [] (splitSlash path))
           in if rooted then CHR ''/'' # out
              else if out = [] then ''.'' else out)"

definition ToSlash :: "string \<Rightarrow> string" where
  "ToSlash path = path"

text \<open>\<open>filepath.Join\<close> of two elements: empty elements are ignored, the result is cleaned.\<close>

definition Join2 :: "string \<Rightarrow> string \<Rightarrow> string" where
  "Join2 a b = (if a = [] \<and> b = [] then []
                else if a = [] then Clean b
                else if b = [] then Clean a
                else Clean (a @ CHR ''/'' # b))"

text \<open>
  \<open>fs.ValidPath\<close>: the name is \<open>.\<close>, or none of its elements is empty, \<open>.\<close> or
  \<open>..\<close>; so a valid name neither starts nor ends with a slash. (The library also
  requires the name to be valid UTF-8; that check only rejects more names and is left
  out.)
\<close>

definition ValidPath :: "string \<Rightarrow> bool" where
  "ValidPath name =
     (name = ''.'' \<or> (\<forall>elem \<in> set (splitSlash name). elem \<noteq> [] \<and> elem \<noteq> ''.'' \<and> elem \<noteq> ''..''))"

text \<open>
  An \<open>fs.FS\<close> is its \<open>Open\<close> method: the file under a name, or an error. The interface
  asks of every implementation that \<open>Open\<close> rejects the names that do not satisfy
  \<open>ValidPath\<close>; \<open>followsValidPath\<close> says that a file system does. An open file is what
  the handler asks of it: what \<open>Stat\<close> answers (an error, or whether the file is a
  directory), and its content when the file implements \<open>io.ReadSeeker\<close>.
\<close>

datatype fsfile = OpenFile (fileStat: "goerror + bool") (fileReader: "string option")

definition RegularFile :: "string \<Rightarrow> fsfile" where
  "RegularFile content = OpenFile (Inr False) (Some content)"

definition Directory :: fsfile where
  "Directory = OpenFile (Inr True) None"

type_synonym FS = "string \<Rightarrow> goerror + fsfile"

definition followsValidPath :: "FS \<Rightarrow> bool" where
  "followsValidPath fileSystem = (\<forall>name. ValidPath name \<or> isl (fileSystem name))"

definition StatusOK :: int where
  "StatusOK = 200"

definition StatusNotFound :: int where
  "StatusNotFound = 404"

definition ErrNotFound :: goerror where
  "ErrNotFound = HTTPError StatusNotFound ''Not Found'' None"

definition indexPage :: string where
  "indexPage = ''index.html''"

definition ErrNoReadSeeker :: goerror where
  "ErrNoReadSeeker = PlainError ''file does not implement io.ReadSeeker''"

definition ErrNilFileInfo :: goerror where
  "ErrNilFileInfo = PlainError ''runtime error: invalid memory address or nil pointer dereference''"

text \<open>
  \<open>http.ServeContent\<close> writes the content to the response. Ranges and conditional
  requests are left aside.
\<close>

definition ServeContent :: "Context \<Rightarrow> string \<Rightarrow> Context" where
  "ServeContent c content =
     (WriteHeader c StatusOK)\<lparr>CtxResponse :=
        (CtxResponse (WriteHeader c StatusOK))\<lparr>Payload := FileBody content\<rparr>\<rparr>"

text \<open>
  \<open>c.FileFS(file, filesystem)\<close> of echo (its function \<open>fsFile\<close>), return by return. A
  file that cannot be opened is \<open>ErrNotFound\<close>. The error of the first \<open>Stat\<close> is
  dropped, and \<open>IsDir\<close> is then called on no \<open>FileInfo\<close>: the handler panics before it
  has written anything, which is the outcome \<open>ErrNilFileInfo\<close> here. For a directory
  the index page inside it is opened instead, \<open>ErrNotFound\<close> again when that fails, and
  the error of its \<open>Stat\<close> is returned. A file that is no \<open>io.ReadSeeker\<close> is an error;
  only then is the content served. No error return writes to the response.
\<close>

definition serveFile :: "Context \<Rightarrow> fsfile \<Rightarrow> goerror option \<times> Context" where
  "serveFile c f =
     (case fileReader f of
        None \<Rightarrow> (Some ErrNoReadSeeker, c)
      | Some content \<Rightarrow> (None, ServeContent c content))"

definition FileFS :: "Context \<Rightarrow> string \<Rightarrow> FS \<Rightarrow> goerror option \<times> Context" where
  "FileFS c file filesystem =
     (case filesystem file of
        Inl err \<Rightarrow> (Some ErrNotFound, c)
      | Inr f \<Rightarrow>
          (case fileStat f of
             Inl err \<Rightarrow> (Some ErrNilFileInfo, c)
           | Inr isDir \<Rightarrow>
               (if isDir
                then (case filesystem (ToSlash (Join2 file indexPage)) of
                        Inl err \<Rightarrow> (Some ErrNotFound, c)
                      | Inr index \<Rightarrow>
                          (case fileStat index of
                             Inl err \<Rightarrow> (Some err, c)
                           | Inr indexIsDir \<Rightarrow> serveFile c index))
                else serveFile c f)))"

definition errorText :: "goerror \<Rightarrow> string" where
  "errorText err = (case err of HTTPError code message internal \<Rightarrow> message
                    | ApiError code message rawData \<Rightarrow> message
                    | PlainError message \<Rightarrow> message)"

text \<open>\<open>c.PathParam(name)\<close>: the value of the parameter, the empty string without one.\<close>

definition PathParam :: "Context \<Rightarrow> string \<Rightarrow> string" where
  "PathParam c name = (case PathParams c name of None \<Rightarrow> [] | Some v \<Rightarrow> v)"

text \<open>
  \<open>StaticDirectoryHandler\<close> (lines 111 to 127). \<open>unescaped\<close> is the path after the
  optional unescaping, \<open>fileName\<close> the name computed on line 123.
\<close>

definition unescaped :: "bool \<Rightarrow> string \<Rightarrow> goerror + string" where
  "unescaped disablePathUnescaping p = (if \<not> disablePathUnescaping then PathUnescape p else Inr p)"

definition fileName :: "string \<Rightarrow> string" where
  "fileName p = ToSlash (Clean (TrimPrefix p ''/''))"

definition StaticDirectoryHandler :: "FS \<Rightarrow> bool \<Rightarrow> HandlerFunc" where
  "StaticDirectoryHandler fileSystem disablePathUnescaping app c =
     (let p = PathParam c ''*''
      in case unescaped disablePathUnescaping p of
           Inl err \<Rightarrow>
             (Some (PlainError (''failed to unescape path variable: '' @ errorText err)), app, c)
         | Inr p' \<Rightarrow>
             (case FileFS c (ToSlash (Clean (TrimPrefix p' ''/''))) fileSystem of
                (e, c') \<Rightarrow> (e, app, c')))"

text \<open>An element that \<open>Clean\<close> keeps: not empty, and without a slash.\<close>

definition slashFree :: "string \<Rightarrow> bool" where
  "slashFree e = (e \<noteq> [] \<and> CHR ''/'' \<notin> set e)"

section \<open>The expression evaluator\<close>

text \<open>
  Modelled from the spec: the collaborators of section 6 that the evaluator calls, since
  the schema store and the record store are missing. \<open>schema\<close> gives a collection by
  name; \<open>findRecord\<close> looks a record up by collection and id, and answers an error (a
  storage failure), no record, or the record; \<open>listRecords\<close> gives the records of a
  collection. \<open>applyOp\<close> is the comparison of two values after the type coercion of
  section 4.2, whose table the specification leaves open.
\<close>

record Stores =
  schema :: "string \<rightharpoonup> Collection"
  findRecord :: "string \<Rightarrow> string \<Rightarrow> goerror + Record option"
  listRecords :: "string \<Rightarrow> goerror + Record list"
  applyOp :: "cmpop \<Rightarrow> val \<Rightarrow> val \<Rightarrow> bool"

text \<open>
  Modelled from the spec: the request context of section 4.2, against which the
  \<open>@request\<close> identifiers resolve; the package that declares it is missing.
\<close>

record RequestContext =
  auth :: AuthContext
  httpMethod :: string
  query :: "string \<rightharpoonup> val"
  data :: "string \<rightharpoonup> val"

text \<open>
  Modelled from the spec: identifier resolution of section 4.2 (the evaluator is missing
  from the sources). A resolution is an error (a storage failure), \<open>None\<close> for a gap
  (a missing identifier, a null relation target, an unresolvable path), or the values the
  path resolves to. The last segment reads a field, and a relation field read last gives
  its ids; every segment before the last must name a relation field, whose records are
  fetched and resolved one by one.
\<close>

definition readField :: "Record \<Rightarrow> string \<Rightarrow> val option" where
  "readField r seg =
     (if seg = ''id'' then Some (VText (recId r))
      else if seg = ''created'' then Some (VDate (recCreated r))
      else if seg = ''updated'' then Some (VDate (recUpdated r))
      else recData r seg)"

definition valuesOf :: "val \<Rightarrow> val list" where
  "valuesOf v = (case v of VRelation ids \<Rightarrow> map VText ids | _ \<Rightarrow> [v])"

definition relationOf :: "Stores \<Rightarrow> Record \<Rightarrow> string \<Rightarrow> (string \<times> string list) option" where
  "relationOf st r seg =
     (case schema st (recCollection r) of
        None \<Rightarrow> None
      | Some coll \<Rightarrow>
          (case find (\<lambda>f. fieldName f = seg) (collFields coll) of
             None \<Rightarrow> None
           | Some f \<Rightarrow>
               (case (fieldType f, targetCollection f, recData r seg) of
                  (TRelation, Some target, Some (VRelation ids)) \<Rightarrow> Some (target, ids)
                | _ \<Rightarrow> None)))"

fun fetchAll :: "Stores \<Rightarrow> string \<Rightarrow> string list \<Rightarrow> goerror + Record list option" where
  "fetchAll st target [] = Inr (Some [])"
| "fetchAll st target (i # ids) =
     (case findRecord st target i of
        Inl err \<Rightarrow> Inl err
      | Inr None \<Rightarrow> Inr None
      | Inr (Some r) \<Rightarrow>
          (case fetchAll st target ids of
             Inl err \<Rightarrow> Inl err
           | Inr None \<Rightarrow> Inr None
           | Inr (Some rs) \<Rightarrow> Inr (Some (r # rs))))"

fun resolveIn :: "Stores \<Rightarrow> string list \<Rightarrow> Record \<Rightarrow> goerror + val list option"
  and resolveAll :: "Stores \<Rightarrow> string list \<Rightarrow> Record list \<Rightarrow> goerror + val list option" where
  "resolveIn st [] r = Inr None"
| "resolveIn st [seg] r =
     (case readField r seg of None \<Rightarrow> Inr None | Some v \<Rightarrow> Inr (Some (valuesOf v)))"
| "resolveIn st (seg # next # rest) r =
     (case relationOf st r seg of
        None \<Rightarrow> Inr None
      | Some (target, ids) \<Rightarrow>
          (case fetchAll st target ids of
             Inl err \<Rightarrow> Inl err
           | Inr None \<Rightarrow> Inr None
           | Inr (Some rs) \<Rightarrow> resolveAll st (next # rest) rs))"
| "resolveAll st path [] = Inr (Some [])"
| "resolveAll st path (r # rs) =
     (case resolveIn st path r of
        Inl err \<Rightarrow> Inl err
      | Inr None \<Rightarrow> Inr None
      | Inr (Some vs) \<Rightarrow>
          (case resolveAll st path rs of
             Inl err \<Rightarrow> Inl err
           | Inr None \<Rightarrow> Inr None
           | Inr (Some ws) \<Rightarrow> Inr (Some (vs @ ws))))"

text \<open>
  Modelled from the spec: the \<open>@request\<close> pseudo-fields that section 4.2 lists
  (\<open>@request.auth.id\<close>, \<open>@request.auth.collectionName\<close>, \<open>@request.method\<close>,
  \<open>@request.query.*\<close>, \<open>@request.data.*\<close>); a guest has no authenticating record, so
  its \<open>auth\<close> fields are gaps.
\<close>

definition resolveRequest :: "RequestContext \<Rightarrow> string list \<Rightarrow> val list option" where
  "resolveRequest ctx path =
     (if path = [''auth'', ''id'']
      then map_option (\<lambda>r. [VText (recId r)]) (authRecord (auth ctx))
      else if path = [''auth'', ''collectionName'']
      then map_option (\<lambda>r. [VText (recCollection r)]) (authRecord (auth ctx))
      else if path = [''method''] then Some [VText (httpMethod ctx)]
      else (case path of
              [space, key] \<Rightarrow>
                (if space = ''query'' then map_option valuesOf (query ctx key)
                 else if space = ''data'' then map_option valuesOf (data ctx key)
                 else None)
            | _ \<Rightarrow> None))"

text \<open>
  Modelled from the spec: the three kinds of leading segment of section 4.2. A path
  under \<open>@collection.<name>\<close> resolves on every record of that collection; any other
  path resolves on the record at hand, and is a gap when there is none.
\<close>

definition resolve :: "Stores \<Rightarrow> RequestContext \<Rightarrow> Record option \<Rightarrow> string list
    \<Rightarrow> goerror + val list option" where
  "resolve st ctx record path =
     (case path of
        [] \<Rightarrow> Inr None
      | seg # rest \<Rightarrow>
          (if seg = ''@request'' then Inr (resolveRequest ctx rest)
           else if seg = ''@collection'' then
             (case rest of
                [] \<Rightarrow> Inr None
              | name # rest' \<Rightarrow>
                  (case listRecords st name of
                     Inl err \<Rightarrow> Inl err
                   | Inr rs \<Rightarrow> resolveAll st rest' rs))
           else (case record of None \<Rightarrow> Inr None | Some r \<Rightarrow> resolveIn st path r)))"

definition ErrInvalidNode :: goerror where
  "ErrInvalidNode = PlainError ''invalid filter expression node''"

text \<open>
  Modelled from the spec: the operands of a comparison (section 3: a comparison has an
  operator and two operands, each a literal or an identifier). Any other node in the
  place of an operand is the programming-error fault of section 4.2.
\<close>

fun operand :: "Stores \<Rightarrow> RequestContext \<Rightarrow> Record option \<Rightarrow> ast \<Rightarrow> goerror + val list option" where
  "operand st ctx record (Literal v) = Inr (Some [v])"
| "operand st ctx record (Identifier path) = resolve st ctx record path"
| "operand st ctx record node = Inl ErrInvalidNode"

text \<open>
  Modelled from the spec: the fan-out rule of section 4.2. The default operators hold
  when the comparison holds for every pair of resolved values, the any-of operators when
  it holds for at least one; on an empty set of values both are false.
\<close>

definition holds :: "Stores \<Rightarrow> cmpop \<Rightarrow> bool \<Rightarrow> val list \<Rightarrow> val list \<Rightarrow> bool" where
  "holds st op anyOf ls rs =
     (let pairs = List.product ls rs
      in pairs \<noteq> [] \<and>
         (if anyOf then list_ex (\<lambda>(a, b). applyOp st op a b) pairs
          else list_all (\<lambda>(a, b). applyOp st op a b) pairs))"

definition compareOperands :: "Stores \<Rightarrow> cmpop \<Rightarrow> bool \<Rightarrow> val list option \<Rightarrow> val list option \<Rightarrow> bool" where
  "compareOperands st op anyOf l r =
     (case (l, r) of (Some ls, Some rs) \<Rightarrow> holds st op anyOf ls rs | _ \<Rightarrow> False)"

text \<open>
  Modelled from the spec: \<open>evaluate(ast, record, context)\<close> of section 4.2. A comparison
  with a gap on either side is false (fail-closed); a storage failure met while
  resolving is returned to the caller (section 7); logical nodes short-circuit; a
  literal or an identifier in the place of a boolean expression is the fault.
\<close>

fun evaluate :: "Stores \<Rightarrow> RequestContext \<Rightarrow> Record option \<Rightarrow> ast \<Rightarrow> goerror + bool" where
  "evaluate st ctx record AlwaysTrue = Inr True"
| "evaluate st ctx record (Group a) = evaluate st ctx record a"
| "evaluate st ctx record (Logical LAnd a b) =
     (case evaluate st ctx record a of
        Inl err \<Rightarrow> Inl err
      | Inr x \<Rightarrow> (if x then evaluate st ctx record b else Inr False))"
| "evaluate st ctx record (Logical LOr a b) =
     (case evaluate st ctx record a of
        Inl err \<Rightarrow> Inl err
      | Inr x \<Rightarrow> (if x then Inr True else evaluate st ctx record b))"
| "evaluate st ctx record (Comparison op anyOf l r) =
     (case operand st ctx record l of
        Inl err \<Rightarrow> Inl err
      | Inr lv \<Rightarrow>
          (case operand st ctx record r of
             Inl err \<Rightarrow> Inl err
           | Inr rv \<Rightarrow> Inr (compareOperands st op anyOf lv rv)))"
| "evaluate st ctx record (Literal v) = Inl ErrInvalidNode"
| "evaluate st ctx record (Identifier path) = Inl ErrInvalidNode"

text \<open>
  Modelled from the spec: the ASTs that the grammar of section 4.1 produces (the parser
  is missing). The empty rule string gives \<open>AlwaysTrue\<close>; otherwise comparisons of two
  operands are combined by \<open>&&\<close>, \<open>||\<close> and parentheses, and an identifier is a
  non-empty path of non-empty segments.
\<close>

fun isOperand :: "ast \<Rightarrow> bool" where
  "isOperand (Literal v) = True"
| "isOperand (Identifier path) = (path \<noteq> [] \<and> list_all (\<lambda>seg. seg \<noteq> []) path)"
| "isOperand node = False"

fun parsedExpr :: "ast \<Rightarrow> bool" where
  "parsedExpr (Comparison op anyOf l r) = (isOperand l \<and> isOperand r)"
| "parsedExpr (Logical lop a b) = (parsedExpr a \<and> parsedExpr b)"
| "parsedExpr (Group a) = parsedExpr a"
| "parsedExpr node = False"

definition parsedAst :: "ast \<Rightarrow> bool" where
  "parsedAst a = (a = AlwaysTrue \<or> parsedExpr a)"

text \<open>The record store answers every lookup: no storage failure.\<close>

definition storageUp :: "Stores \<Rightarrow> bool" where
  "storageUp st =
     ((\<forall>coll i. \<not> isl (findRecord st coll i)) \<and> (\<forall>coll. \<not> isl (listRecords st coll)))"

section \<open>The rule resolver\<close>

text \<open>
  Modelled from the spec: \<open>canPerform(collection, operation, record|nil, context)\<close> and
  its decision table of section 4.3; the resolver is missing from the sources. The
  result is a decision, or the failure of the evaluation.
\<close>

datatype operation = OpList | OpView | OpCreate | OpUpdate | OpDelete

datatype decision = Allow | Deny

fun ruleFor :: "Collection \<Rightarrow> operation \<Rightarrow> rule" where
  "ruleFor coll OpList = listRule coll"
| "ruleFor coll OpView = viewRule coll"
| "ruleFor coll OpCreate = createRule coll"
| "ruleFor coll OpUpdate = updateRule coll"
| "ruleFor coll OpDelete = deleteRule coll"

definition canPerform :: "Stores \<Rightarrow> Collection \<Rightarrow> operation \<Rightarrow> Record option \<Rightarrow> RequestContext
    \<Rightarrow> goerror + decision" where
  "canPerform st coll op' record ctx =
     (if kind (auth ctx) = Admin then Inr Allow
      else (case ruleFor coll op' of
              Absent \<Rightarrow> Inr Deny
            | Empty \<Rightarrow> Inr Allow
            | Expression a \<Rightarrow>
                (case evaluate st ctx record a of
                   Inl err \<Rightarrow> Inl err
                 | Inr x \<Rightarrow> Inr (if x then Allow else Deny))))"

section \<open>The auth context propagator\<close>

text \<open>
  Modelled from the spec: the propagator of section 4.4 and the credential verifier of
  section 6; \<open>LoadAuthContext\<close> and the token packages are missing from the sources. The
  verifier finds a token malformed, invalid or expired, or valid with its subject and
  claims; \<open>findAuthRecord\<close> resolves a subject in the auth collections,
  \<open>isAdminSubject\<close> in the administrative identity store.
\<close>

datatype verification =
    TokenMalformed
  | TokenInvalid
  | TokenExpired
  | TokenValid string "string \<rightharpoonup> val"

record Identities =
  verifyToken :: "string \<Rightarrow> verification"
  findAuthRecord :: "string \<Rightarrow> Record option"
  isAdminSubject :: "string \<Rightarrow> bool"

definition guestContext :: AuthContext where
  "guestContext = \<lparr>kind = Guest, authRecord = None, claims = Map.empty\<rparr>"

definition buildAuthContext :: "Identities \<Rightarrow> credential \<Rightarrow> AuthContext" where
  "buildAuthContext ids cred =
     (case cred of
        NoCredential \<Rightarrow> guestContext
      | UserToken token \<Rightarrow>
          (case verifyToken ids token of
             TokenValid subject cl \<Rightarrow>
               (case findAuthRecord ids subject of
                  Some r \<Rightarrow> \<lparr>kind = User, authRecord = Some r, claims = cl\<rparr>
                | None \<Rightarrow> guestContext)
           | _ \<Rightarrow> guestContext)
      | AdminToken token \<Rightarrow>
          (case verifyToken ids token of
             TokenValid subject cl \<Rightarrow>
               (if isAdminSubject ids subject
                then \<lparr>kind = Admin, authRecord = None, claims = cl\<rparr>
                else guestContext)
           | _ \<Rightarrow> guestContext))"

text \<open>
  Modelled from the spec: the middleware \<open>LoadAuthContext\<close> that \<open>InitApi\<close> installs
  (control flow of section 2: the REST path builds the \<open>AuthContext\<close>, then the handler
  runs). It stores the auth context in the request's context and calls the next handler;
  it has no error of its own.
\<close>

definition LoadAuthContext :: "Identities \<Rightarrow> MiddlewareFunc" where
  "LoadAuthContext ids next app c =
     next app (c\<lparr>CtxAuth := Some (buildAuthContext ids (ReqCredential (CtxRequest c)))\<rparr>)"

section \<open>The router and \<open>InitApi\<close>\<close>

text \<open>
  A middleware other than \<open>LoadAuthContext\<close> (one of echo's middleware package,
  \<open>ActivityLogger\<close>, or one that a hook registers) is described by what it does before
  it calls the next handler and by what it makes of that handler's result: \<open>enter\<close>
  answers the request itself, or goes on with the application and the context that it
  hands to the next handler; \<open>leave\<close> is given the application and the context of the
  entry and the result of the next handler. Such a middleware calls the next handler at
  most once.
\<close>

record Stage =
  enter :: "App \<Rightarrow> Context \<Rightarrow> (goerror option \<times> App \<times> Context) + (App \<times> Context)"
  leave :: "App \<Rightarrow> Context \<Rightarrow> goerror option \<times> App \<times> Context \<Rightarrow> goerror option \<times> App \<times> Context"

datatype Middleware = LoadAuthContextMw Identities | StageMw Stage

text \<open>
  Modelled from the spec: section 3, an \<open>AuthContext\<close> is immutable after construction,
  and section 4.4, the propagator alone produces it. So the context that another
  middleware hands to the next handler holds the auth context that the middleware was
  given; \<open>LoadAuthContextMw\<close> is the middleware \<open>LoadAuthContext\<close> of the propagator.
\<close>

fun mwEnter :: "Middleware \<Rightarrow> App \<Rightarrow> Context
    \<Rightarrow> (goerror option \<times> App \<times> Context) + (App \<times> Context)" where
  "mwEnter (LoadAuthContextMw ids) app c =
     Inr (app, c\<lparr>CtxAuth := Some (buildAuthContext ids (ReqCredential (CtxRequest c)))\<rparr>)"
| "mwEnter (StageMw s) app c =
     (case enter s app c of
        Inl r \<Rightarrow> Inl r
      | Inr (app', c') \<Rightarrow> Inr (app', c'\<lparr>CtxAuth := CtxAuth c\<rparr>))"

fun mwLeave :: "Middleware \<Rightarrow> App \<Rightarrow> Context \<Rightarrow> goerror option \<times> App \<times> Context
    \<Rightarrow> goerror option \<times> App \<times> Context" where
  "mwLeave (LoadAuthContextMw ids) app c r = r"
| "mwLeave (StageMw s) app c r = leave s app c r"

definition middlewareFunc :: "Middleware \<Rightarrow> MiddlewareFunc" where
  "middlewareFunc m next app c =
     (case mwEnter m app c of
        Inl r \<Rightarrow> r
      | Inr (app', c') \<Rightarrow> mwLeave m app c (next app' c'))"




text \<open>
  \<open>applyMiddleware\<close> of echo wraps the handler from the last middleware to the first, so
  the first one registered runs first.
\<close>

definition applyMiddleware :: "HandlerFunc \<Rightarrow> MiddlewareFunc list \<Rightarrow> HandlerFunc" where
  "applyMiddleware h ms = foldr (\<lambda>m k. m k) ms h"











text \<open>
  Serving a request is observed through the events of its run, in the order they happen:
  a middleware is entered, \<open>LoadAuthContext\<close> is entered and stores the auth context, the
  handler of the route is entered, with the auth context that its context then holds.
  The events are written by the dispatcher, not by the middlewares or the handlers.
\<close>

datatype event =
    MiddlewareEntered
  | AuthContextLoaded
  | RouteHandlerEntered "AuthContext option"

type_synonym TracedHandler = "App \<Rightarrow> Context \<Rightarrow> event list \<times> goerror option \<times> App \<times> Context"

fun entered :: "Middleware \<Rightarrow> event" where
  "entered (LoadAuthContextMw ids) = AuthContextLoaded"
| "entered (StageMw s) = MiddlewareEntered"

text \<open>
  The chain that \<open>applyMiddleware\<close> builds, run with its events: the first middleware is
  entered first, and the handler \<open>h\<close> only when every middleware has gone on.
\<close>

fun runMiddleware :: "TracedHandler \<Rightarrow> Middleware list \<Rightarrow> TracedHandler" where
  "runMiddleware h [] app c = h app c"
| "runMiddleware h (m # ms) app c =
     (case mwEnter m app c of
        Inl r \<Rightarrow> ([entered m], r)
      | Inr (app', c') \<Rightarrow>
          (case runMiddleware h ms app' c' of
             (tr, r) \<Rightarrow> (entered m # tr, mwLeave m app c r)))"




section \<open>Example states\<close>

text \<open>Concrete applications and requests on which the definitions are run.\<close>

definition exampleApp :: "goerror + int \<Rightarrow> (string \<rightharpoonup> anyval) \<Rightarrow> App" where
  "exampleApp q m =
     \<lparr>TotalAdmins = q, Cache = m, IsDebug = False, LogLines = [],
      OnAdminAfterCreateRequest = [], OnAdminAfterDeleteRequest = []\<rparr>"

definition exampleContext :: "string \<Rightarrow> (string \<rightharpoonup> string list) \<Rightarrow> Context" where
  "exampleContext m q =
     \<lparr>CtxRequest = \<lparr>ReqMethod = m, ReqQuery = q, ReqCredential = NoCredential\<rparr>,
      CtxResponse = \<lparr>Committed = False, Status = 200, Location = None, Payload = NoBody\<rparr>,
      PathParams = Map.empty, CtxAuth = None, ClientGone = False\<rparr>"

text \<open>
  An application whose admin hooks hold a handler of the rest of the program, registered
  before the one of \<open>base.go\<close>; that handler fails.
\<close>

definition exampleSharedHooks :: "goerror + int \<Rightarrow> (string \<rightharpoonup> anyval) \<Rightarrow> App" where
  "exampleSharedHooks q m =
     installerRedirectHooks
       ((exampleApp q m)\<lparr>OnAdminAfterCreateRequest := [OtherHandler 0],
                         OnAdminAfterDeleteRequest := [OtherHandler 0]\<rparr>)"

definition failingHandlers :: OtherHandlers where
  "failingHandlers i app = (Some (PlainError ''mail could not be sent''), app)"

definition noHandlers :: OtherHandlers where
  "noHandlers i app = (None, app)"

definition oneAdminApp :: App where
  "oneAdminApp = exampleSharedHooks (Inr 1) [''totalAdmins'' \<mapsto> AnyInt 0]"

definition lockedApp :: App where
  "lockedApp =
     exampleSharedHooks (Inl (PlainError ''database is locked'')) [''totalAdmins'' \<mapsto> AnyInt 0]"

definition intOfAny :: "anyval \<Rightarrow> int" where
  "intOfAny v = (case v of AnyInt n \<Rightarrow> n | AnyBool b \<Rightarrow> (if b then 1 else 0) | _ \<Rightarrow> 0)"

definition okHandler :: HandlerFunc where
  "okHandler app c = (None, app, WriteHeader c 200)"

text \<open>
  Two file systems: \<open>exampleFS\<close> holds an index page and follows the \<open>fs.FS\<close> rules;
  \<open>uncheckedFS\<close> opens whatever name it is given, as a careless implementation would.
\<close>

definition exampleFS :: FS where
  "exampleFS name =
     (if \<not> ValidPath name then Inl (PlainError ''invalid argument'')
      else if name = ''.'' then Inr Directory
      else if name = ''index.html'' then Inr (RegularFile ''<html></html>'')
      else Inl (PlainError ''file does not exist''))"

definition uncheckedFS :: FS where
  "uncheckedFS name =
     (if name = ''/etc/passwd'' then Inr (RegularFile ''root:x:0:0'')
      else Inl (PlainError ''file does not exist''))"

definition exampleStaticContext :: "string \<Rightarrow> Context" where
  "exampleStaticContext p =
     \<lparr>CtxRequest = \<lparr>ReqMethod = ''GET'', ReqQuery = Map.empty, ReqCredential = NoCredential\<rparr>,
      CtxResponse = \<lparr>Committed = False, Status = 200, Location = None, Payload = NoBody\<rparr>,
      PathParams = [''*'' \<mapsto> p], CtxAuth = None, ClientGone = False\<rparr>"

text \<open>
  The collection \<open>posts\<close> of scenario A of the specification, with the view rule
  \<open>published = true || @request.auth.id = author\<close>, an unpublished post of the user
  \<open>u1\<close>, and a record store that holds that user. The example comparison knows equality
  and inequality of values.
\<close>

definition exampleOp :: "cmpop \<Rightarrow> val \<Rightarrow> val \<Rightarrow> bool" where
  "exampleOp op a b = (case op of OpEq \<Rightarrow> a = b | OpNeq \<Rightarrow> a \<noteq> b | _ \<Rightarrow> False)"

definition userU1 :: Record where
  "userU1 = \<lparr>recCollection = ''users'', recId = ''u1'', recCreated = ''2022-07-01'',
             recUpdated = ''2022-07-01'', recData = Map.empty\<rparr>"

definition postP1 :: Record where
  "postP1 = \<lparr>recCollection = ''posts'', recId = ''p1'', recCreated = ''2022-07-02'',
             recUpdated = ''2022-07-02'',
             recData = [''published'' \<mapsto> VBool False, ''author'' \<mapsto> VRelation [''u1'']]\<rparr>"

definition isPublished :: ast where
  "isPublished = Comparison OpEq False (Identifier [''published'']) (Literal (VBool True))"

definition isAuthor :: ast where
  "isAuthor = Comparison OpEq False (Identifier [''@request'', ''auth'', ''id''])
                (Identifier [''author''])"

definition postsCollection :: Collection where
  "postsCollection =
     \<lparr>collName = ''posts'', collType = BaseCollection,
      collFields =
        [\<lparr>fieldName = ''published'', fieldType = TBool, required = False,
          targetCollection = None\<rparr>,
         \<lparr>fieldName = ''author'', fieldType = TRelation, required = True,
          targetCollection = Some ''users''\<rparr>],
      listRule = Absent, viewRule = Expression (Logical LOr isPublished isAuthor),
      createRule = Absent, updateRule = Absent, deleteRule = Absent\<rparr>"

definition exampleStores :: Stores where
  "exampleStores =
     \<lparr>schema = [''posts'' \<mapsto> postsCollection],
      findRecord = (\<lambda>coll i. if coll = ''users'' \<and> i = ''u1'' then Inr (Some userU1)
                               else Inr None),
      listRecords = (\<lambda>coll. Inr []),
      applyOp = exampleOp\<rparr>"

definition userContext :: AuthContext where
  "userContext = \<lparr>kind = User, authRecord = Some userU1, claims = Map.empty\<rparr>"

definition adminContext :: AuthContext where
  "adminContext = \<lparr>kind = Admin, authRecord = None, claims = Map.empty\<rparr>"

definition requestOf :: "AuthContext \<Rightarrow> RequestContext" where
  "requestOf a = \<lparr>auth = a, httpMethod = ''GET'', query = Map.empty, data = Map.empty\<rparr>"

text \<open>
  Identities that know the user \<open>u1\<close> behind the token \<open>good\<close>, an expired token
  \<open>old\<close>, and nothing else; and the parts of an \<open>InitApi\<close> call in which every outside
  middleware passes the request on and the \<open>OnBeforeServe\<close> hook has no handler.
\<close>

definition exampleIdentities :: Identities where
  "exampleIdentities =
     \<lparr>verifyToken = (\<lambda>token. if token = ''good'' then TokenValid ''u1'' Map.empty
                               else if token = ''old'' then TokenExpired
                               else TokenMalformed),
      findAuthRecord = (\<lambda>subject. if subject = ''u1'' then Some userU1 else None),
      isAdminSubject = (\<lambda>subject. False)\<rparr>"




definition exampleCredContext :: "credential \<Rightarrow> Context" where
  "exampleCredContext cred =
     \<lparr>CtxRequest = \<lparr>ReqMethod = ''GET'', ReqQuery = Map.empty, ReqCredential = cred\<rparr>,
      CtxResponse = \<lparr>Committed = False, Status = 200, Location = None, Payload = NoBody\<rparr>,
      PathParams = Map.empty, CtxAuth = None, ClientGone = False\<rparr>"

section \<open>Properties of the admin cache\<close>

lemma updateTotalAdminsCache_fail:
  "TotalAdmins app = Inl err \<Longrightarrow> updateTotalAdminsCache app = (Some err, app)"
  by (simp add: updateTotalAdminsCache_def)

lemma updateTotalAdminsCache_ok:
  "TotalAdmins app = Inr n \<Longrightarrow>
   updateTotalAdminsCache app =
     (None, app\<lparr>Cache := (Cache app)(totalAdminsCacheKey \<mapsto> AnyInt n)\<rparr>)"
  by (simp add: updateTotalAdminsCache_def CacheSet_def)

text \<open>
  Claim C9. \<open>updateTotalAdminsCache\<close> is atomic on error: when the \<open>TotalAdmins\<close> query
  fails, the function returns that error and the application, its cache included, is
  what it was; when the query succeeds with \<open>n\<close>, the function returns no error and the
  only change is that the key \<open>totalAdmins\<close> now holds \<open>n\<close>. So the cache changes only
  when the query has succeeded.
\<close>

theorem updateTotalAdminsCache_atomic:
  "(\<forall>err. TotalAdmins app = Inl err \<longrightarrow> updateTotalAdminsCache app = (Some err, app)) \<and>
   (\<forall>n. TotalAdmins app = Inr n \<longrightarrow>
      updateTotalAdminsCache app =
        (None, app\<lparr>Cache := (Cache app)(totalAdminsCacheKey \<mapsto> AnyInt n)\<rparr>)) \<and>
   (Cache (snd (updateTotalAdminsCache app)) \<noteq> Cache app \<longrightarrow>
      (\<exists>n. TotalAdmins app = Inr n \<and> fst (updateTotalAdminsCache app) = None))"
proof (cases "TotalAdmins app")
  case (Inl err)
  then show ?thesis by (simp add: updateTotalAdminsCache_fail)
next
  case (Inr n)
  then show ?thesis by (simp add: updateTotalAdminsCache_ok)
qed

theorem updateTotalAdminsCache_atomic_witness:
  "TotalAdmins (exampleApp (Inl (PlainError ''database is locked'')) [''totalAdmins'' \<mapsto> AnyInt 1])
     = Inl (PlainError ''database is locked'') \<and>
   updateTotalAdminsCache (exampleApp (Inl (PlainError ''database is locked'')) [''totalAdmins'' \<mapsto> AnyInt 1])
     = (Some (PlainError ''database is locked''),
        exampleApp (Inl (PlainError ''database is locked'')) [''totalAdmins'' \<mapsto> AnyInt 1]) \<and>
   TotalAdmins (exampleApp (Inr 2) [''totalAdmins'' \<mapsto> AnyInt 1]) = Inr 2 \<and>
   updateTotalAdminsCache (exampleApp (Inr 2) [''totalAdmins'' \<mapsto> AnyInt 1])
     = (None, exampleApp (Inr 2) [''totalAdmins'' \<mapsto> AnyInt 2])"
  using updateTotalAdminsCache_atomic
          [of "exampleApp (Inl (PlainError ''database is locked'')) [''totalAdmins'' \<mapsto> AnyInt 1]"]
        updateTotalAdminsCache_atomic [of "exampleApp (Inr 2) [''totalAdmins'' \<mapsto> AnyInt 1]"]
  by (simp add: exampleApp_def totalAdminsCacheKey_def)

section \<open>Properties of the installer redirect\<close>

lemma Redirect_temporary:
  "Redirect c StatusTemporaryRedirect url =
     (None, WriteHeader (c\<lparr>CtxResponse := (CtxResponse c)\<lparr>Location := Some url\<rparr>\<rparr>) 307)"
  by (simp add: Redirect_def StatusTemporaryRedirect_def)

lemma installerRedirect_populated:
  assumes "Cache app totalAdminsCacheKey = Some v"
  shows "installerRedirect ToInt next app c =
     (if ToInt v = 0 \<and> ReqQuery (CtxRequest c) ''installer'' = None
      then (None, app, snd (Redirect c StatusTemporaryRedirect ''/_/?installer#''))
      else if ToInt v \<noteq> 0 \<and> ReqQuery (CtxRequest c) ''installer'' \<noteq> None
      then (None, app, snd (Redirect c StatusTemporaryRedirect ''/_/#/''))
      else next app c)"
  using assms
  by (simp add: installerRedirect_def CacheHas_def CacheGet_def Redirect_temporary Let_def)

text \<open>
  Claim C10. With the key \<open>totalAdmins\<close> in the cache, holding \<open>v\<close>, the middleware
  leaves the application as it is and: when \<open>cast.ToInt v\<close> is 0 and the URL query has
  no key \<open>installer\<close>, it answers \<open>c.Redirect(307, "/_/?installer#")\<close>; when the total
  is not 0 and the query has the key, it answers \<open>c.Redirect(307, "/_/#/")\<close>; in every
  other case it is \<open>next(c)\<close>. On a response not yet committed the redirect writes
  status 307 and the \<open>Location\<close> header.
\<close>

theorem installerRedirect_cases:
  assumes "Cache app totalAdminsCacheKey = Some v"
  shows "(ToInt v = 0 \<and> ReqQuery (CtxRequest c) ''installer'' = None \<longrightarrow>
            installerRedirect ToInt next app c =
              (None, app, WriteHeader (c\<lparr>CtxResponse := (CtxResponse c)
                                          \<lparr>Location := Some ''/_/?installer#''\<rparr>\<rparr>) 307) \<and>
            (\<not> Committed (CtxResponse c) \<longrightarrow>
               Status (CtxResponse (snd (snd (installerRedirect ToInt next app c)))) = 307 \<and>
               Location (CtxResponse (snd (snd (installerRedirect ToInt next app c))))
                 = Some ''/_/?installer#'')) \<and>
         (ToInt v \<noteq> 0 \<and> ReqQuery (CtxRequest c) ''installer'' \<noteq> None \<longrightarrow>
            installerRedirect ToInt next app c =
              (None, app, WriteHeader (c\<lparr>CtxResponse := (CtxResponse c)
                                          \<lparr>Location := Some ''/_/#/''\<rparr>\<rparr>) 307) \<and>
            (\<not> Committed (CtxResponse c) \<longrightarrow>
               Status (CtxResponse (snd (snd (installerRedirect ToInt next app c)))) = 307 \<and>
               Location (CtxResponse (snd (snd (installerRedirect ToInt next app c))))
                 = Some ''/_/#/'')) \<and>
         (\<not> (ToInt v = 0 \<and> ReqQuery (CtxRequest c) ''installer'' = None) \<and>
          \<not> (ToInt v \<noteq> 0 \<and> ReqQuery (CtxRequest c) ''installer'' \<noteq> None) \<longrightarrow>
            installerRedirect ToInt next app c = next app c)"
  using installerRedirect_populated [OF assms, of ToInt "next" c]
  by (simp add: Redirect_temporary WriteHeader_def)

theorem installerRedirect_cases_witness:
  "Cache (exampleApp (Inr 0) [''totalAdmins'' \<mapsto> AnyInt 0]) totalAdminsCacheKey = Some (AnyInt 0) \<and>
   installerRedirect intOfAny okHandler (exampleApp (Inr 0) [''totalAdmins'' \<mapsto> AnyInt 0])
       (exampleContext ''GET'' Map.empty)
     = (None, exampleApp (Inr 0) [''totalAdmins'' \<mapsto> AnyInt 0],
        (exampleContext ''GET'' Map.empty)
          \<lparr>CtxResponse := \<lparr>Committed = True, Status = 307,
                            Location = Some ''/_/?installer#'', Payload = NoBody\<rparr>\<rparr>) \<and>
   Cache (exampleApp (Inr 3) [''totalAdmins'' \<mapsto> AnyInt 3]) totalAdminsCacheKey = Some (AnyInt 3) \<and>
   installerRedirect intOfAny okHandler (exampleApp (Inr 3) [''totalAdmins'' \<mapsto> AnyInt 3])
       (exampleContext ''GET'' [''installer'' \<mapsto> [[]]])
     = (None, exampleApp (Inr 3) [''totalAdmins'' \<mapsto> AnyInt 3],
        (exampleContext ''GET'' [''installer'' \<mapsto> [[]]])
          \<lparr>CtxResponse := \<lparr>Committed = True, Status = 307,
                            Location = Some ''/_/#/'', Payload = NoBody\<rparr>\<rparr>) \<and>
   installerRedirect intOfAny okHandler (exampleApp (Inr 3) [''totalAdmins'' \<mapsto> AnyInt 3])
       (exampleContext ''GET'' Map.empty)
     = okHandler (exampleApp (Inr 3) [''totalAdmins'' \<mapsto> AnyInt 3]) (exampleContext ''GET'' Map.empty)"
  using installerRedirect_cases
          [of "exampleApp (Inr 0) [''totalAdmins'' \<mapsto> AnyInt 0]" "AnyInt 0" intOfAny
              "exampleContext ''GET'' Map.empty" okHandler]
        installerRedirect_cases
          [of "exampleApp (Inr 3) [''totalAdmins'' \<mapsto> AnyInt 3]" "AnyInt 3" intOfAny
              "exampleContext ''GET'' [''installer'' \<mapsto> [[]]]" okHandler]
        installerRedirect_cases
          [of "exampleApp (Inr 3) [''totalAdmins'' \<mapsto> AnyInt 3]" "AnyInt 3" intOfAny
              "exampleContext ''GET'' Map.empty" okHandler]
  by (simp add: exampleApp_def exampleContext_def totalAdminsCacheKey_def intOfAny_def
        WriteHeader_def)

section \<open>Properties of the error handler\<close>

lemma NewBadRequestError_empty:
  "NewBadRequestError [] err =
     ApiError 400 ''Something went wrong while processing your request.'' err"
  by code_simp

lemma HTTPErrorHandler_other:
  assumes "otherError err" and "\<not> Committed (CtxResponse c)" and "\<not> ClientGone c"
  shows "snd (HTTPErrorHandler app c err) =
     (if ReqMethod (CtxRequest c) = MethodHead
      then c\<lparr>CtxResponse := (CtxResponse c)\<lparr>Committed := True, Status := 400\<rparr>\<rparr>
      else c\<lparr>CtxResponse := (CtxResponse c)\<lparr>Committed := True, Status := 400,
                Payload := JSONBody (NewBadRequestError [] err)\<rparr>\<rparr>)"
proof (cases err rule: otherError.cases)
  case 1
  with assms(2,3) show ?thesis
    by (simp add: HTTPErrorHandler_def NewBadRequestError_empty NoContent_def JSON_def
        WriteHeader_def)
next
  case (2 message)
  with assms(2,3) show ?thesis
    by (simp add: HTTPErrorHandler_def NewBadRequestError_empty NoContent_def JSON_def
        WriteHeader_def)
next
  case (3 code message internal)
  with assms(1) show ?thesis by simp
next
  case (4 code message rawData)
  with assms(1) show ?thesis by simp
qed

text \<open>
  Claim C1, as the code has it. An error that is neither an \<open>*echo.HTTPError\<close> nor a
  \<open>*rest.ApiError\<close> is wrapped by \<open>rest.NewBadRequestError\<close>: on a response not yet
  committed, to a client that is still there, the handler answers status 400 (a client
  error, not a server error), with the \<open>ApiError\<close> as JSON body unless the method is
  HEAD; a response already committed is left as it is.
\<close>

theorem HTTPErrorHandler_default_is_bad_request:
  assumes "otherError err"
  shows "(\<not> Committed (CtxResponse c) \<and> \<not> ClientGone c \<longrightarrow>
            Status (CtxResponse (snd (HTTPErrorHandler app c err))) = StatusBadRequest \<and>
            Committed (CtxResponse (snd (HTTPErrorHandler app c err))) \<and>
            Payload (CtxResponse (snd (HTTPErrorHandler app c err))) =
              (if ReqMethod (CtxRequest c) = MethodHead then Payload (CtxResponse c)
               else JSONBody (ApiError 400
                      ''Something went wrong while processing your request.'' err))) \<and>
         (Committed (CtxResponse c) \<longrightarrow> HTTPErrorHandler app c err = (app, c))"
proof -
  have "Committed (CtxResponse c) \<Longrightarrow> HTTPErrorHandler app c err = (app, c)"
    by (simp add: HTTPErrorHandler_def)
  moreover have "\<not> Committed (CtxResponse c) \<Longrightarrow> \<not> ClientGone c \<Longrightarrow>
      Status (CtxResponse (snd (HTTPErrorHandler app c err))) = StatusBadRequest \<and>
      Committed (CtxResponse (snd (HTTPErrorHandler app c err))) \<and>
      Payload (CtxResponse (snd (HTTPErrorHandler app c err))) =
        (if ReqMethod (CtxRequest c) = MethodHead then Payload (CtxResponse c)
         else JSONBody (ApiError 400
                ''Something went wrong while processing your request.'' err))"
    using HTTPErrorHandler_other [OF assms, of c app]
    by (simp add: StatusBadRequest_def NewBadRequestError_empty)
  ultimately show ?thesis by blast
qed

theorem HTTPErrorHandler_default_is_bad_request_witness:
  "otherError (Some (PlainError ''sql: connection is closed'')) \<and>
   \<not> Committed (CtxResponse (exampleContext ''GET'' Map.empty)) \<and>
   \<not> ClientGone (exampleContext ''GET'' Map.empty) \<and>
   Status (CtxResponse (snd (HTTPErrorHandler (exampleApp (Inr 1) Map.empty)
      (exampleContext ''GET'' Map.empty) (Some (PlainError ''sql: connection is closed''))))) = 400 \<and>
   Payload (CtxResponse (snd (HTTPErrorHandler (exampleApp (Inr 1) Map.empty)
      (exampleContext ''GET'' Map.empty) (Some (PlainError ''sql: connection is closed''))))) =
     JSONBody (ApiError 400 ''Something went wrong while processing your request.''
                 (Some (PlainError ''sql: connection is closed'')))"
  using HTTPErrorHandler_default_is_bad_request
          [of "Some (PlainError ''sql: connection is closed'')" "exampleContext ''GET'' Map.empty"
              "exampleApp (Inr 1) Map.empty"]
  by (simp add: exampleContext_def StatusBadRequest_def MethodHead_def)

theorem HTTPErrorHandler_server_error_counterexample:
  "otherError (Some (PlainError ''sql: connection is closed'')) \<and>
   \<not> isServerError (Status (CtxResponse (snd (HTTPErrorHandler (exampleApp (Inr 1) Map.empty)
      (exampleContext ''GET'' Map.empty) (Some (PlainError ''sql: connection is closed''))))))"
  by (simp add: HTTPErrorHandler_def NewBadRequestError_empty JSON_def WriteHeader_def
      exampleContext_def MethodHead_def isServerError_def)

section \<open>Properties of the admin hooks\<close>

lemma runHandlers_append:
  "runHandlers others (xs @ ys) app =
     (case runHandlers others xs app of
        (Completed, app') \<Rightarrow> runHandlers others ys app'
      | (end', app') \<Rightarrow> (end', app'))"
proof (induction xs arbitrary: app)
  case Nil
  show ?case by simp
next
  case (Cons x xs)
  show ?case
  proof (cases "runHandler others x app")
    case (Pair err app')
    show ?thesis
    proof (cases err)
      case None
      with Pair Cons [of app'] show ?thesis by simp
    next
      case (Some e)
      with Pair show ?thesis by simp
    qed
  qed
qed

lemma runHandlers_updater_ok:
  assumes "runHandlers others before app = (Completed, app1)" and "TotalAdmins app1 = Inr n"
  shows "runHandlers others (before @ UpdateTotalAdminsCacheHandler # after) app =
           runHandlers others after
             (app1\<lparr>Cache := (Cache app1)(totalAdminsCacheKey \<mapsto> AnyInt n)\<rparr>)"
  using assms by (simp add: runHandlers_append updateTotalAdminsCache_ok)

lemma runHandlers_updater_fails:
  assumes "runHandlers others before app = (Completed, app1)" and "TotalAdmins app1 = Inl err"
  shows "runHandlers others (before @ UpdateTotalAdminsCacheHandler # after) app =
           (if err = StopPropagation then Stopped else Failed err, app1)"
  using assms by (simp add: runHandlers_append updateTotalAdminsCache_fail)

lemma runHandlers_stopped_before:
  assumes "runHandlers others before app = (end', app1)" and "end' \<noteq> Completed"
  shows "runHandlers others (before @ UpdateTotalAdminsCacheHandler # after) app = (end', app1)"
  using assms by (cases end') (simp_all add: runHandlers_append)

lemma installerRedirect_absent_ok:
  assumes "\<not> CacheHas (Cache app) totalAdminsCacheKey" and "TotalAdmins app = Inr n"
  shows "installerRedirect ToInt next app c =
     (if ToInt (AnyInt n) = 0 \<and> ReqQuery (CtxRequest c) ''installer'' = None
      then (None, app\<lparr>Cache := (Cache app)(totalAdminsCacheKey \<mapsto> AnyInt n)\<rparr>,
            snd (Redirect c StatusTemporaryRedirect ''/_/?installer#''))
      else if ToInt (AnyInt n) \<noteq> 0 \<and> ReqQuery (CtxRequest c) ''installer'' \<noteq> None
      then (None, app\<lparr>Cache := (Cache app)(totalAdminsCacheKey \<mapsto> AnyInt n)\<rparr>,
            snd (Redirect c StatusTemporaryRedirect ''/_/#/''))
      else next (app\<lparr>Cache := (Cache app)(totalAdminsCacheKey \<mapsto> AnyInt n)\<rparr>) c)"
  using assms
  by (simp add: installerRedirect_def updateTotalAdminsCache_ok CacheGet_def
      Redirect_temporary Let_def)

lemma installerRedirect_absent_fails:
  assumes "\<not> CacheHas (Cache app) totalAdminsCacheKey" and "TotalAdmins app = Inl err"
  shows "installerRedirect ToInt next app c = (Some err, app, c)"
  using assms by (simp add: installerRedirect_def updateTotalAdminsCache_fail)

text \<open>
  Claim C5, as the code has it. \<open>installerRedirect\<close> adds one handler to the end of the
  hook of admin creation and one to the end of the hook of admin deletion; no timer is
  involved, the handlers run when the hook is triggered. In a hook that holds the
  handler, after the handlers \<open>before\<close> and ahead of the handlers \<open>after\<close>:
  when the handlers before it have all returned no error and the \<open>TotalAdmins\<close> query
  answers \<open>n\<close>, the handler sets the key \<open>totalAdmins\<close> to \<open>n\<close>, changes nothing else,
  and the run goes on with the handlers after it; when the query fails, the run ends in
  the state it had reached, the cache as it was, and the error is the error of the
  trigger; when a handler before it ends the run, the handler does not run. The
  middleware writes the entry too, when the key is absent: it sets it to the count the
  query answers and goes on as with the key present, or returns the error of the query
  with nothing changed. With the key present it writes nothing: it either redirects, the
  application unchanged, or is the next handler.
\<close>

theorem admin_hooks_update_cache:
  "OnAdminAfterCreateRequest (installerRedirectHooks app) =
     OnAdminAfterCreateRequest app @ [UpdateTotalAdminsCacheHandler] \<and>
   OnAdminAfterDeleteRequest (installerRedirectHooks app) =
     OnAdminAfterDeleteRequest app @ [UpdateTotalAdminsCacheHandler] \<and>
   (\<forall>a1 n. runHandlers others before a = (Completed, a1) \<and> TotalAdmins a1 = Inr n \<longrightarrow>
      Trigger others (before @ UpdateTotalAdminsCacheHandler # after) a =
        Trigger others after (a1\<lparr>Cache := (Cache a1)(totalAdminsCacheKey \<mapsto> AnyInt n)\<rparr>)) \<and>
   (\<forall>n. TotalAdmins a = Inr n \<longrightarrow>
      Trigger others [UpdateTotalAdminsCacheHandler] a =
        (None, a\<lparr>Cache := (Cache a)(totalAdminsCacheKey \<mapsto> AnyInt n)\<rparr>)) \<and>
   (\<forall>a1 err. runHandlers others before a = (Completed, a1) \<and> TotalAdmins a1 = Inl err \<longrightarrow>
      snd (Trigger others (before @ UpdateTotalAdminsCacheHandler # after) a) = a1 \<and>
      (err \<noteq> StopPropagation \<longrightarrow>
         fst (Trigger others (before @ UpdateTotalAdminsCacheHandler # after) a) = Some err)) \<and>
   (\<forall>end' a1. runHandlers others before a = (end', a1) \<and> end' \<noteq> Completed \<longrightarrow>
      snd (Trigger others (before @ UpdateTotalAdminsCacheHandler # after) a) = a1) \<and>
   (\<forall>n. \<not> CacheHas (Cache a) totalAdminsCacheKey \<and> TotalAdmins a = Inr n \<longrightarrow>
      installerRedirect ToInt next a c =
        (if ToInt (AnyInt n) = 0 \<and> ReqQuery (CtxRequest c) ''installer'' = None
         then (None, a\<lparr>Cache := (Cache a)(totalAdminsCacheKey \<mapsto> AnyInt n)\<rparr>,
               snd (Redirect c StatusTemporaryRedirect ''/_/?installer#''))
         else if ToInt (AnyInt n) \<noteq> 0 \<and> ReqQuery (CtxRequest c) ''installer'' \<noteq> None
         then (None, a\<lparr>Cache := (Cache a)(totalAdminsCacheKey \<mapsto> AnyInt n)\<rparr>,
               snd (Redirect c StatusTemporaryRedirect ''/_/#/''))
         else next (a\<lparr>Cache := (Cache a)(totalAdminsCacheKey \<mapsto> AnyInt n)\<rparr>) c)) \<and>
   (\<forall>err. \<not> CacheHas (Cache a) totalAdminsCacheKey \<and> TotalAdmins a = Inl err \<longrightarrow>
      installerRedirect ToInt next a c = (Some err, a, c)) \<and>
   (CacheHas (Cache a) totalAdminsCacheKey \<longrightarrow>
      fst (snd (installerRedirect ToInt next a c)) = a \<or>
      installerRedirect ToInt next a c = next a c)"
proof (intro conjI allI impI)
  show "OnAdminAfterCreateRequest (installerRedirectHooks app) =
          OnAdminAfterCreateRequest app @ [UpdateTotalAdminsCacheHandler]"
    by (simp add: installerRedirectHooks_def)
next
  show "OnAdminAfterDeleteRequest (installerRedirectHooks app) =
          OnAdminAfterDeleteRequest app @ [UpdateTotalAdminsCacheHandler]"
    by (simp add: installerRedirectHooks_def)
next
  fix a1 n
  assume "runHandlers others before a = (Completed, a1) \<and> TotalAdmins a1 = Inr n"
  then show "Trigger others (before @ UpdateTotalAdminsCacheHandler # after) a =
        Trigger others after (a1\<lparr>Cache := (Cache a1)(totalAdminsCacheKey \<mapsto> AnyInt n)\<rparr>)"
    by (simp add: Trigger_def runHandlers_updater_ok)
next
  fix n
  assume "TotalAdmins a = Inr n"
  then show "Trigger others [UpdateTotalAdminsCacheHandler] a =
        (None, a\<lparr>Cache := (Cache a)(totalAdminsCacheKey \<mapsto> AnyInt n)\<rparr>)"
    by (simp add: Trigger_def updateTotalAdminsCache_ok)
next
  fix a1 err
  assume "runHandlers others before a = (Completed, a1) \<and> TotalAdmins a1 = Inl err"
  then show "snd (Trigger others (before @ UpdateTotalAdminsCacheHandler # after) a) = a1"
    by (simp add: Trigger_def runHandlers_updater_fails)
next
  fix a1 err
  assume "runHandlers others before a = (Completed, a1) \<and> TotalAdmins a1 = Inl err"
    and "err \<noteq> StopPropagation"
  then show "fst (Trigger others (before @ UpdateTotalAdminsCacheHandler # after) a) = Some err"
    by (simp add: Trigger_def runHandlers_updater_fails)
next
  fix end' a1
  assume "runHandlers others before a = (end', a1) \<and> end' \<noteq> Completed"
  then have "runHandlers others (before @ UpdateTotalAdminsCacheHandler # after) a = (end', a1)"
    by (simp add: runHandlers_stopped_before)
  then show "snd (Trigger others (before @ UpdateTotalAdminsCacheHandler # after) a) = a1"
    by (cases end') (simp_all add: Trigger_def)
next
  fix n
  assume "\<not> CacheHas (Cache a) totalAdminsCacheKey \<and> TotalAdmins a = Inr n"
  then show "installerRedirect ToInt next a c =
        (if ToInt (AnyInt n) = 0 \<and> ReqQuery (CtxRequest c) ''installer'' = None
         then (None, a\<lparr>Cache := (Cache a)(totalAdminsCacheKey \<mapsto> AnyInt n)\<rparr>,
               snd (Redirect c StatusTemporaryRedirect ''/_/?installer#''))
         else if ToInt (AnyInt n) \<noteq> 0 \<and> ReqQuery (CtxRequest c) ''installer'' \<noteq> None
         then (None, a\<lparr>Cache := (Cache a)(totalAdminsCacheKey \<mapsto> AnyInt n)\<rparr>,
               snd (Redirect c StatusTemporaryRedirect ''/_/#/''))
         else next (a\<lparr>Cache := (Cache a)(totalAdminsCacheKey \<mapsto> AnyInt n)\<rparr>) c)"
    using installerRedirect_absent_ok [of a n ToInt "next" c] by blast
next
  fix err
  assume "\<not> CacheHas (Cache a) totalAdminsCacheKey \<and> TotalAdmins a = Inl err"
  then show "installerRedirect ToInt next a c = (Some err, a, c)"
    using installerRedirect_absent_fails [of a err ToInt "next" c] by blast
next
  assume "CacheHas (Cache a) totalAdminsCacheKey"
  then obtain v where "Cache a totalAdminsCacheKey = Some v"
    by (auto simp: CacheHas_def)
  from installerRedirect_populated [OF this, of ToInt "next" c]
  show "fst (snd (installerRedirect ToInt next a c)) = a \<or>
        installerRedirect ToInt next a c = next a c"
    by (simp split: if_splits)
qed

lemma oneAdminApp_hooks:
  "OnAdminAfterCreateRequest oneAdminApp = [OtherHandler 0] @ UpdateTotalAdminsCacheHandler # []"
  by (simp add: oneAdminApp_def exampleSharedHooks_def installerRedirectHooks_def exampleApp_def)

lemma lockedApp_hooks:
  "OnAdminAfterCreateRequest lockedApp = [OtherHandler 0] @ UpdateTotalAdminsCacheHandler # []"
  by (simp add: lockedApp_def exampleSharedHooks_def installerRedirectHooks_def exampleApp_def)

lemma oneAdminApp_state:
  "TotalAdmins oneAdminApp = Inr 1" "Cache oneAdminApp totalAdminsCacheKey = Some (AnyInt 0)"
  by (simp_all add: oneAdminApp_def exampleSharedHooks_def installerRedirectHooks_def
      exampleApp_def totalAdminsCacheKey_def)

lemma lockedApp_state:
  "TotalAdmins lockedApp = Inl (PlainError ''database is locked'')"
  "Cache lockedApp totalAdminsCacheKey = Some (AnyInt 0)"
  by (simp_all add: lockedApp_def exampleSharedHooks_def installerRedirectHooks_def
      exampleApp_def totalAdminsCacheKey_def)

theorem admin_hooks_update_cache_witness:
  "runHandlers noHandlers [OtherHandler 0] oneAdminApp = (Completed, oneAdminApp) \<and>
   TotalAdmins oneAdminApp = Inr 1 \<and>
   Cache (snd (Trigger noHandlers (OnAdminAfterCreateRequest oneAdminApp) oneAdminApp))
     totalAdminsCacheKey = Some (AnyInt 1) \<and>
   TotalAdmins lockedApp = Inl (PlainError ''database is locked'') \<and>
   Trigger noHandlers (OnAdminAfterCreateRequest lockedApp) lockedApp
     = (Some (PlainError ''database is locked''), lockedApp) \<and>
   runHandlers failingHandlers [OtherHandler 0] oneAdminApp
     = (Failed (PlainError ''mail could not be sent''), oneAdminApp) \<and>
   snd (Trigger failingHandlers (OnAdminAfterCreateRequest oneAdminApp) oneAdminApp) = oneAdminApp \<and>
   \<not> CacheHas (Cache (exampleApp (Inr 0) Map.empty)) totalAdminsCacheKey \<and>
   installerRedirect intOfAny okHandler (exampleApp (Inr 0) Map.empty)
       (exampleContext ''GET'' Map.empty)
     = (None, exampleApp (Inr 0) [''totalAdmins'' \<mapsto> AnyInt 0],
        snd (Redirect (exampleContext ''GET'' Map.empty) StatusTemporaryRedirect
               ''/_/?installer#'')) \<and>
   installerRedirect intOfAny okHandler
       (exampleApp (Inl (PlainError ''database is locked'')) Map.empty)
       (exampleContext ''GET'' Map.empty)
     = (Some (PlainError ''database is locked''),
        exampleApp (Inl (PlainError ''database is locked'')) Map.empty,
        exampleContext ''GET'' Map.empty)"
proof -
  have through: "runHandlers noHandlers [OtherHandler 0] oneAdminApp = (Completed, oneAdminApp)"
    by (simp add: noHandlers_def)
  have through': "runHandlers noHandlers [OtherHandler 0] lockedApp = (Completed, lockedApp)"
    by (simp add: noHandlers_def)
  have stopped: "runHandlers failingHandlers [OtherHandler 0] oneAdminApp
                   = (Failed (PlainError ''mail could not be sent''), oneAdminApp)"
    by (simp add: failingHandlers_def StopPropagation_def)
  have absent: "\<not> CacheHas (Cache (exampleApp (Inr 0) Map.empty)) totalAdminsCacheKey"
    by (simp add: CacheHas_def exampleApp_def)
  have absent': "\<not> CacheHas (Cache (exampleApp (Inl (PlainError ''database is locked'')) Map.empty))
                    totalAdminsCacheKey"
    by (simp add: CacheHas_def exampleApp_def)
  note ok = admin_hooks_update_cache
      [where others = noHandlers and before = "[OtherHandler 0]" and a = oneAdminApp
         and after = "[]",
        THEN conjunct2, THEN conjunct2, THEN conjunct1, rule_format, of oneAdminApp 1]
  note bad = admin_hooks_update_cache
      [where others = noHandlers and before = "[OtherHandler 0]" and a = lockedApp
         and after = "[]",
        THEN conjunct2, THEN conjunct2, THEN conjunct2, THEN conjunct2, THEN conjunct1,
        rule_format, of lockedApp "PlainError ''database is locked''"]
  note early = admin_hooks_update_cache
      [where others = failingHandlers and before = "[OtherHandler 0]" and a = oneAdminApp
         and after = "[]",
        THEN conjunct2, THEN conjunct2, THEN conjunct2, THEN conjunct2, THEN conjunct2,
        THEN conjunct1, rule_format,
        of "Failed (PlainError ''mail could not be sent'')" oneAdminApp]
  note load = admin_hooks_update_cache
      [where a = "exampleApp (Inr 0) Map.empty" and ToInt = intOfAny
         and c = "exampleContext ''GET'' Map.empty" and ?next = okHandler,
        THEN conjunct2, THEN conjunct2, THEN conjunct2, THEN conjunct2, THEN conjunct2,
        THEN conjunct2, THEN conjunct1, rule_format, of 0]
  note loadfail = admin_hooks_update_cache
      [where a = "exampleApp (Inl (PlainError ''database is locked'')) Map.empty"
         and ToInt = intOfAny and c = "exampleContext ''GET'' Map.empty" and ?next = okHandler,
        THEN conjunct2, THEN conjunct2, THEN conjunct2, THEN conjunct2, THEN conjunct2,
        THEN conjunct2, THEN conjunct2, THEN conjunct1, rule_format,
        of "PlainError ''database is locked''"]
  have w1: "Cache (snd (Trigger noHandlers (OnAdminAfterCreateRequest oneAdminApp) oneAdminApp))
              totalAdminsCacheKey = Some (AnyInt 1)"
    using ok through oneAdminApp_state(1)
    by (simp add: oneAdminApp_hooks Trigger_def)
  have w2: "Trigger noHandlers (OnAdminAfterCreateRequest lockedApp) lockedApp
              = (Some (PlainError ''database is locked''), lockedApp)"
    using bad through' lockedApp_state(1)
    by (simp add: lockedApp_hooks StopPropagation_def prod_eq_iff)
  have w3: "snd (Trigger failingHandlers (OnAdminAfterCreateRequest oneAdminApp) oneAdminApp)
              = oneAdminApp"
    using early stopped by (simp add: oneAdminApp_hooks)
  have w4: "installerRedirect intOfAny okHandler (exampleApp (Inr 0) Map.empty)
       (exampleContext ''GET'' Map.empty)
     = (None, exampleApp (Inr 0) [''totalAdmins'' \<mapsto> AnyInt 0],
        snd (Redirect (exampleContext ''GET'' Map.empty) StatusTemporaryRedirect
               ''/_/?installer#''))"
    using load absent
    by (simp add: exampleApp_def exampleContext_def intOfAny_def totalAdminsCacheKey_def)
  have w5: "installerRedirect intOfAny okHandler
       (exampleApp (Inl (PlainError ''database is locked'')) Map.empty)
       (exampleContext ''GET'' Map.empty)
     = (Some (PlainError ''database is locked''),
        exampleApp (Inl (PlainError ''database is locked'')) Map.empty,
        exampleContext ''GET'' Map.empty)"
    using loadfail absent' by (simp add: exampleApp_def)
  from through oneAdminApp_state(1) w1 lockedApp_state(1) w2 stopped w3 absent w4 w5
  show ?thesis by simp
qed

theorem admin_hooks_stale_cache_counterexample:
  "TotalAdmins lockedApp = Inl (PlainError ''database is locked'') \<and>
   Trigger noHandlers (OnAdminAfterCreateRequest lockedApp) lockedApp
     = (Some (PlainError ''database is locked''), lockedApp) \<and>
   Cache (snd (Trigger noHandlers (OnAdminAfterCreateRequest lockedApp) lockedApp))
     totalAdminsCacheKey = Some (AnyInt 0) \<and>
   TotalAdmins oneAdminApp = Inr 1 \<and>
   Cache (snd (Trigger failingHandlers (OnAdminAfterCreateRequest oneAdminApp) oneAdminApp))
     totalAdminsCacheKey = Some (AnyInt 0)"
proof -
  have locked: "Trigger noHandlers (OnAdminAfterCreateRequest lockedApp) lockedApp
                  = (Some (PlainError ''database is locked''), lockedApp)"
    by (simp add: lockedApp_hooks Trigger_def noHandlers_def lockedApp_state
        updateTotalAdminsCache_fail StopPropagation_def)
  have failing: "Trigger failingHandlers (OnAdminAfterCreateRequest oneAdminApp) oneAdminApp
                   = (Some (PlainError ''mail could not be sent''), oneAdminApp)"
    by (simp add: oneAdminApp_hooks Trigger_def failingHandlers_def StopPropagation_def)
  from locked failing lockedApp_state oneAdminApp_state show ?thesis by simp
qed

section \<open>Properties of the static file handler\<close>

lemma splitSlash_nonempty: "splitSlash s \<noteq> []"
  by (induction s) (auto split: list.splits)

lemma splitSlash_no_slash: "e \<in> set (splitSlash s) \<Longrightarrow> CHR ''/'' \<notin> set e"
proof (induction s arbitrary: e)
  case Nil
  then show ?case by simp
next
  case (Cons c cs)
  show ?case
  proof (cases "c = CHR ''/''")
    case True
    with Cons show ?thesis by auto
  next
    case False
    obtain x xs where "splitSlash cs = x # xs"
      using splitSlash_nonempty [of cs] by (cases "splitSlash cs") auto
    with Cons False show ?thesis by auto
  qed
qed

lemma cleanElems_slashFree:
  "\<forall>e \<in> set out. slashFree e \<Longrightarrow> \<forall>e \<in> set es. CHR ''/'' \<notin> set e \<Longrightarrow>
   \<forall>e \<in> set (cleanElems rooted out es). slashFree e"
proof (induction rooted out es rule: cleanElems.induct)
  case (1 rooted out)
  then show ?case by simp
next
  case (2 rooted out e es)
  have dd: "slashFree ''..''" by (simp add: slashFree_def)
  have es: "\<forall>e \<in> set es. CHR ''/'' \<notin> set e" using "2.prems"(2) by simp
  have e: "CHR ''/'' \<notin> set e" using "2.prems"(2) by simp
  note out = "2.prems"(1)
  consider (skip) "e = [] \<or> e = ''.''"
    | (up_empty_rooted) "\<not> (e = [] \<or> e = ''.'')" "e = ''..''" "out = []" "rooted"
    | (up_empty_free) "\<not> (e = [] \<or> e = ''.'')" "e = ''..''" "out = []" "\<not> rooted"
    | (up_keep) x xs where "\<not> (e = [] \<or> e = ''.'')" "e = ''..''" "out = x # xs" "x = ''..''"
    | (up_pop) x xs where "\<not> (e = [] \<or> e = ''.'')" "e = ''..''" "out = x # xs" "x \<noteq> ''..''"
    | (push) "\<not> (e = [] \<or> e = ''.'')" "e \<noteq> ''..''"
    by (cases out) auto
  then show ?case
  proof cases
    case skip
    from "2.IH"(1) [OF skip out es] skip show ?thesis by simp
  next
    case up_empty_rooted
    from "2.IH"(2) [OF up_empty_rooted] es
    have "\<forall>e \<in> set (cleanElems rooted [] es). slashFree e" by simp
    with up_empty_rooted show ?thesis by simp
  next
    case up_empty_free
    from "2.IH"(3) [OF up_empty_free] es dd
    have "\<forall>e \<in> set (cleanElems rooted [''..''] es). slashFree e" by simp
    with up_empty_free show ?thesis by simp
  next
    case up_keep
    from "2.IH"(4) [OF up_keep] es dd out
    have "\<forall>e \<in> set (cleanElems rooted (''..'' # out) es). slashFree e" by simp
    with up_keep show ?thesis by simp
  next
    case up_pop
    from out up_pop(3) have "\<forall>e \<in> set xs. slashFree e" by simp
    from "2.IH"(5) [OF up_pop this es]
    have "\<forall>e \<in> set (cleanElems rooted xs es). slashFree e" .
    with up_pop show ?thesis by simp
  next
    case push
    from push e have "slashFree e" by (auto simp: slashFree_def)
    with out have "\<forall>x \<in> set (e # out). slashFree x" by simp
    from "2.IH"(6) [OF push this es]
    have "\<forall>x \<in> set (cleanElems rooted (e # out) es). slashFree x" .
    with push show ?thesis by simp
  qed
qed

lemma joinSlash_hd:
  "xs \<noteq> [] \<Longrightarrow> \<forall>e \<in> set xs. slashFree e \<Longrightarrow>
   joinSlash xs \<noteq> [] \<and> hd (joinSlash xs) \<noteq> CHR ''/''"
  by (cases xs rule: joinSlash.cases) (auto simp: slashFree_def dest: hd_in_set)

lemma Clean_rooted: "HasPrefix (Clean s) ''/'' = HasPrefix s ''/''"
proof (cases "s = []")
  case True
  then show ?thesis by (simp add: Clean_def HasPrefix_def)
next
  case False
  then obtain c cs where s: "s = c # cs" by (cases s) auto
  show ?thesis
  proof (cases "c = CHR ''/''")
    case True
    with s show ?thesis by (simp add: Clean_def HasPrefix_def)
  next
    case nr: False
    let ?es = "cleanElems False [] (splitSlash s)"
    have sf: "\<forall>e \<in> set ?es. slashFree e"
      by (rule cleanElems_slashFree) (auto dest: splitSlash_no_slash)
    have "\<not> HasPrefix (joinSlash ?es) ''/''" if "joinSlash ?es \<noteq> []"
    proof -
      from that have "?es \<noteq> []" by auto
      from joinSlash_hd [OF this sf] show ?thesis
        by (cases "joinSlash ?es") (auto simp: HasPrefix_def)
    qed
    moreover have "Clean s = (if joinSlash ?es = [] then ''.'' else joinSlash ?es)"
      using s nr by (simp add: Clean_def Let_def)
    moreover have "\<not> HasPrefix s ''/''" using s nr by (simp add: HasPrefix_def)
    ultimately show ?thesis
      by (simp add: HasPrefix_def)
  qed
qed

lemma fileName_rooted: "HasPrefix (fileName p) ''/'' = HasPrefix p ''//''"
proof (cases "HasPrefix p ''/''")
  case True
  then obtain t where "p = CHR ''/'' # t" by (cases p) (auto simp: HasPrefix_def)
  then have "TrimPrefix p ''/'' = t" and "HasPrefix p ''//'' = HasPrefix t ''/''"
    by (simp_all add: TrimPrefix_def HasPrefix_def)
  then show ?thesis
    by (simp add: fileName_def ToSlash_def Clean_rooted)
next
  case False
  then have "TrimPrefix p ''/'' = p" by (simp add: TrimPrefix_def HasPrefix_def)
  moreover from False have "\<not> HasPrefix p ''//''"
    by (cases p) (auto simp: HasPrefix_def)
  ultimately show ?thesis using False
    by (simp add: fileName_def ToSlash_def Clean_rooted)
qed

lemma ValidPath_not_rooted: "HasPrefix name ''/'' \<Longrightarrow> \<not> ValidPath name"
  by (cases name) (auto simp: HasPrefix_def ValidPath_def)

lemma ValidPath_no_dotdot: "''..'' \<in> set (splitSlash name) \<Longrightarrow> \<not> ValidPath name"
  by (auto simp: ValidPath_def)


lemma FileFS_invalid:
  "followsValidPath fileSystem \<Longrightarrow> \<not> ValidPath name \<Longrightarrow>
   FileFS c name fileSystem = (Some ErrNotFound, c)"
proof -
  assume "followsValidPath fileSystem" and "\<not> ValidPath name"
  then obtain err where "fileSystem name = Inl err"
    by (cases "fileSystem name") (auto simp: followsValidPath_def)
  then show ?thesis by (simp add: FileFS_def)
qed

lemma serveFile_outcome:
  "serveFile c f = (Some ErrNoReadSeeker, c) \<or>
   (\<exists>content. fileReader f = Some content \<and> serveFile c f = (None, ServeContent c content))"
  by (cases "fileReader f") (simp_all add: serveFile_def)

lemma FileFS_served:
  assumes "followsValidPath fileSystem"
  shows "(\<exists>err. FileFS c name fileSystem = (Some err, c)) \<or>
         (\<exists>opened f content.
            ValidPath opened \<and> fileSystem opened = Inr f \<and> fileReader f = Some content \<and>
            FileFS c name fileSystem = (None, ServeContent c content))"
proof (cases "fileSystem name")
  case (Inl err)
  then show ?thesis by (simp add: FileFS_def)
next
  case (Inr f)
  have valid: "ValidPath n" if "fileSystem n = Inr g" for n g
    using assms that by (auto simp: followsValidPath_def dest: spec [of _ n])
  show ?thesis
  proof (cases "fileStat f")
    case (Inl err)
    with Inr show ?thesis by (simp add: FileFS_def)
  next
    case stat: (Inr isDir)
    show ?thesis
    proof (cases isDir)
      case False
      with Inr stat have "FileFS c name fileSystem = serveFile c f"
        by (simp add: FileFS_def)
      with serveFile_outcome [of c f] valid [OF Inr] Inr show ?thesis by auto
    next
      case True
      show ?thesis
      proof (cases "fileSystem (ToSlash (Join2 name indexPage))")
        case (Inl err)
        with Inr stat True show ?thesis by (simp add: FileFS_def)
      next
        case inner: (Inr index)
        show ?thesis
        proof (cases "fileStat index")
          case (Inl err)
          with Inr stat True inner show ?thesis by (simp add: FileFS_def)
        next
          case (Inr indexIsDir)
          with \<open>fileSystem name = Inr f\<close> stat True inner
          have "FileFS c name fileSystem = serveFile c index"
            by (simp add: FileFS_def)
          with serveFile_outcome [of c index] valid [OF inner] inner show ?thesis by auto
        qed
      qed
    qed
  qed
qed

lemma StaticDirectoryHandler_name:
  "unescaped disablePathUnescaping (PathParam c ''*'') = Inr p \<Longrightarrow>
   StaticDirectoryHandler fileSystem disablePathUnescaping app c =
     (fst (FileFS c (fileName p) fileSystem), app, snd (FileFS c (fileName p) fileSystem))"
  by (simp add: StaticDirectoryHandler_def fileName_def Let_def split: prod.splits)

lemma exampleFS_follows: "followsValidPath exampleFS"
  by (simp add: followsValidPath_def exampleFS_def)

lemma escaped_dotdot_path:
  "unescaped False ''..%2F..%2Fetc%2Fpasswd'' = Inr ''../../etc/passwd''"
  by code_simp

lemma dotdot_name_elements:
  "splitSlash (ToSlash (Clean (TrimPrefix ''../../etc/passwd'' ''/''))) =
     [''..'', ''..'', ''etc'', ''passwd'']"
  by code_simp

lemma double_slash_name: "ToSlash (Clean (TrimPrefix ''//etc/passwd'' ''/'')) = ''/etc/passwd''"
  by code_simp

lemma exampleStaticContext_param: "PathParam (exampleStaticContext p) ''*'' = p"
  by (simp add: PathParam_def exampleStaticContext_def)

lemma root_name: "ToSlash (Clean (TrimPrefix [] ''/'')) = ''.''"
  by code_simp

lemma root_index_name: "ToSlash (Join2 ''.'' indexPage) = ''index.html''"
  by code_simp

lemma valid_index_name: "ValidPath ''index.html''"
  by code_simp

lemma valid_dot: "ValidPath ''.''"
  by code_simp

lemma exampleFS_serves_index:
  "StaticDirectoryHandler exampleFS False (exampleApp (Inr 1) Map.empty) (exampleStaticContext [])
     = (None, exampleApp (Inr 1) Map.empty,
        ServeContent (exampleStaticContext []) ''<html></html>'')"
  by (simp add: StaticDirectoryHandler_def exampleStaticContext_param unescaped_def
        PathUnescape.simps root_name root_index_name valid_index_name valid_dot FileFS_def
        serveFile_def RegularFile_def Directory_def exampleFS_def)

text \<open>
  Claim C8, as the code has it. When the path parameter unescapes to \<open>p\<close>, the handler
  is \<open>c.FileFS\<close> on the name \<open>filepath.ToSlash(filepath.Clean(strings.TrimPrefix(p, "/")))\<close>.
  That name begins with a slash exactly when \<open>p\<close> begins with two slashes: only one is
  trimmed. On a file system that follows the \<open>fs.FS\<close> rule for names, a name that
  begins with a slash or has an element \<open>..\<close> is not opened and the handler returns
  \<open>ErrNotFound\<close> with the response untouched. Whenever the handler returns an error it
  has written nothing; and when it returns none, the content it has served is that of a
  file opened under a name that satisfies \<open>fs.ValidPath\<close>, hence below the root of the
  file system.
\<close>

theorem StaticDirectoryHandler_serves_valid_names:
  assumes "followsValidPath fileSystem"
    and "unescaped disablePathUnescaping (PathParam c ''*'') = Inr p"
  shows "StaticDirectoryHandler fileSystem disablePathUnescaping app c =
           (fst (FileFS c (ToSlash (Clean (TrimPrefix p ''/''))) fileSystem), app,
            snd (FileFS c (ToSlash (Clean (TrimPrefix p ''/''))) fileSystem)) \<and>
         HasPrefix (ToSlash (Clean (TrimPrefix p ''/''))) ''/'' = HasPrefix p ''//'' \<and>
         (HasPrefix (ToSlash (Clean (TrimPrefix p ''/''))) ''/'' \<or>
          ''..'' \<in> set (splitSlash (ToSlash (Clean (TrimPrefix p ''/'')))) \<longrightarrow>
            StaticDirectoryHandler fileSystem disablePathUnescaping app c
              = (Some ErrNotFound, app, c)) \<and>
         (\<forall>err. fst (StaticDirectoryHandler fileSystem disablePathUnescaping app c) = Some err \<longrightarrow>
            StaticDirectoryHandler fileSystem disablePathUnescaping app c = (Some err, app, c)) \<and>
         (fst (StaticDirectoryHandler fileSystem disablePathUnescaping app c) = None \<longrightarrow>
            (\<exists>opened f content.
               ValidPath opened \<and> fileSystem opened = Inr f \<and> fileReader f = Some content \<and>
               StaticDirectoryHandler fileSystem disablePathUnescaping app c
                 = (None, app, ServeContent c content)))"
proof -
  note h = StaticDirectoryHandler_name [OF assms(2), of fileSystem app]
  have name: "fileName p = ToSlash (Clean (TrimPrefix p ''/''))"
    by (simp add: fileName_def)
  have rooted: "HasPrefix (fileName p) ''/'' = HasPrefix p ''//''"
    by (rule fileName_rooted)
  have reject: "StaticDirectoryHandler fileSystem disablePathUnescaping app c
                  = (Some ErrNotFound, app, c)"
    if "HasPrefix (fileName p) ''/'' \<or> ''..'' \<in> set (splitSlash (fileName p))"
  proof -
    from that have "\<not> ValidPath (fileName p)"
      using ValidPath_not_rooted ValidPath_no_dotdot by blast
    from FileFS_invalid [OF assms(1) this, of c] h show ?thesis by simp
  qed
  have outcome: "(\<exists>err. StaticDirectoryHandler fileSystem disablePathUnescaping app c
                          = (Some err, app, c)) \<or>
          (\<exists>opened f content.
             ValidPath opened \<and> fileSystem opened = Inr f \<and> fileReader f = Some content \<and>
             StaticDirectoryHandler fileSystem disablePathUnescaping app c
               = (None, app, ServeContent c content))"
    using FileFS_served [OF assms(1), of c "fileName p"] h by auto
  have failed: "StaticDirectoryHandler fileSystem disablePathUnescaping app c = (Some err, app, c)"
    if "fst (StaticDirectoryHandler fileSystem disablePathUnescaping app c) = Some err" for err
    using outcome that by auto
  have served: "\<exists>opened f content.
             ValidPath opened \<and> fileSystem opened = Inr f \<and> fileReader f = Some content \<and>
             StaticDirectoryHandler fileSystem disablePathUnescaping app c
               = (None, app, ServeContent c content)"
    if "fst (StaticDirectoryHandler fileSystem disablePathUnescaping app c) = None"
    using outcome that by auto
  from h rooted reject failed served show ?thesis
    unfolding name by blast
qed

theorem StaticDirectoryHandler_serves_valid_names_witness:
  "followsValidPath exampleFS \<and>
   unescaped False (PathParam (exampleStaticContext ''..%2F..%2Fetc%2Fpasswd'') ''*'')
     = Inr ''../../etc/passwd'' \<and>
   ''..'' \<in> set (splitSlash (ToSlash (Clean (TrimPrefix ''../../etc/passwd'' ''/'')))) \<and>
   StaticDirectoryHandler exampleFS False (exampleApp (Inr 1) Map.empty)
       (exampleStaticContext ''..%2F..%2Fetc%2Fpasswd'')
     = (Some ErrNotFound, exampleApp (Inr 1) Map.empty,
        exampleStaticContext ''..%2F..%2Fetc%2Fpasswd'') \<and>
   StaticDirectoryHandler exampleFS False (exampleApp (Inr 1) Map.empty) (exampleStaticContext [])
     = (None, exampleApp (Inr 1) Map.empty,
        ServeContent (exampleStaticContext []) ''<html></html>'')"
proof -
  have unesc: "unescaped False (PathParam (exampleStaticContext ''..%2F..%2Fetc%2Fpasswd'') ''*'')
       = Inr ''../../etc/passwd''"
    by (simp add: exampleStaticContext_param escaped_dotdot_path)
  have dotdot: "''..'' \<in> set (splitSlash (ToSlash (Clean (TrimPrefix ''../../etc/passwd'' ''/''))))"
    by (simp add: dotdot_name_elements)
  from StaticDirectoryHandler_serves_valid_names
         [OF exampleFS_follows unesc, of "exampleApp (Inr 1) Map.empty"] dotdot
  have "StaticDirectoryHandler exampleFS False (exampleApp (Inr 1) Map.empty)
          (exampleStaticContext ''..%2F..%2Fetc%2Fpasswd'')
        = (Some ErrNotFound, exampleApp (Inr 1) Map.empty,
           exampleStaticContext ''..%2F..%2Fetc%2Fpasswd'')"
    by blast
  with exampleFS_follows unesc dotdot exampleFS_serves_index show ?thesis by blast
qed

theorem StaticDirectoryHandler_rooted_name_counterexample:
  "unescaped False (PathParam (exampleStaticContext ''//etc/passwd'') ''*'') = Inr ''//etc/passwd'' \<and>
   ToSlash (Clean (TrimPrefix ''//etc/passwd'' ''/'')) = ''/etc/passwd'' \<and>
   HasPrefix (ToSlash (Clean (TrimPrefix ''//etc/passwd'' ''/''))) ''/'' \<and>
   StaticDirectoryHandler uncheckedFS False (exampleApp (Inr 1) Map.empty)
       (exampleStaticContext ''//etc/passwd'')
     = (None, exampleApp (Inr 1) Map.empty,
        ServeContent (exampleStaticContext ''//etc/passwd'') ''root:x:0:0'')"
  by (simp add: StaticDirectoryHandler_def exampleStaticContext_param unescaped_def
        double_slash_name FileFS_def serveFile_def RegularFile_def uncheckedFS_def HasPrefix_def)

section \<open>Properties of the expression evaluator\<close>

lemma not_isl_Inr: "(\<not> isl x) = (\<exists>v. x = Inr v)"
  by (cases x) simp_all

lemma storageUp_findRecord: "storageUp st \<Longrightarrow> \<exists>v. findRecord st coll i = Inr v"
  unfolding storageUp_def not_isl_Inr by blast

lemma storageUp_listRecords: "storageUp st \<Longrightarrow> \<exists>v. listRecords st coll = Inr v"
  unfolding storageUp_def not_isl_Inr by blast

lemma fetchAll_up: "storageUp st \<Longrightarrow> \<exists>v. fetchAll st target ids = Inr v"
proof (induction ids)
  case Nil
  show ?case by simp
next
  case (Cons i ids)
  from storageUp_findRecord [OF Cons.prems, of target i]
  obtain found where f: "findRecord st target i = Inr found" by blast
  from Cons obtain v where v: "fetchAll st target ids = Inr v" by blast
  show ?case using f v by (cases found; cases v) simp_all
qed

lemma fetchAll_null_target:
  "storageUp st \<Longrightarrow> i \<in> set ids \<Longrightarrow> findRecord st target i = Inr None \<Longrightarrow>
   fetchAll st target ids = Inr None"
proof (induction ids)
  case Nil
  then show ?case by simp
next
  case (Cons j ids)
  show ?case
  proof (cases "findRecord st target j")
    case (Inl err)
    with storageUp_findRecord [OF Cons.prems(1), of target j] show ?thesis by simp
  next
    case (Inr found)
    show ?thesis
    proof (cases found)
      case None
      with Inr show ?thesis by simp
    next
      case (Some r)
      with Inr Cons.prems have "i \<in> set ids" by auto
      from Cons.IH [OF Cons.prems(1) this Cons.prems(3)] Inr Some show ?thesis by simp
    qed
  qed
qed

lemma resolve_up:
  "storageUp st \<Longrightarrow> \<exists>v. resolveIn st path r = Inr v"
  "storageUp st \<Longrightarrow> \<exists>v. resolveAll st path rs = Inr v"
proof (induction st path r and st path rs rule: resolveIn_resolveAll.induct)
  case (1 st r)
  show ?case by simp
next
  case (2 st seg r)
  show ?case by (cases "readField r seg") simp_all
next
  case (3 st seg "next" rest r)
  note up = "3.prems"
  show ?case
  proof (cases "relationOf st r seg")
    case None
    then show ?thesis by simp
  next
    case (Some rel)
    obtain target ids where rel: "rel = (target, ids)" by (cases rel)
    from fetchAll_up [OF up, of target ids]
    obtain fetched where f: "fetchAll st target ids = Inr fetched" by blast
    show ?thesis
    proof (cases fetched)
      case None
      with Some rel f show ?thesis by simp
    next
      case fetchedSome: (Some rs)
      from "3.IH" [OF Some rel [symmetric] f fetchedSome up]
      show ?thesis using Some rel f fetchedSome by simp
    qed
  qed
next
  case (4 st path)
  show ?case by simp
next
  case (5 st path r rs)
  note up = "5.prems"
  from "5.IH"(1) [OF up] obtain v where v: "resolveIn st path r = Inr v" by blast
  show ?case
  proof (cases v)
    case None
    with v show ?thesis by simp
  next
    case (Some vs)
    from "5.IH"(2) [OF v Some up] obtain w where "resolveAll st path rs = Inr w" by blast
    with v Some show ?thesis by (cases w) simp_all
  qed
qed

lemma resolve_total: "storageUp st \<Longrightarrow> \<exists>v. resolve st ctx record path = Inr v"
proof -
  assume up: "storageUp st"
  show ?thesis
  proof (cases path)
    case Nil
    then show ?thesis by (simp add: resolve_def)
  next
    case (Cons seg rest)
    consider (request) "seg = ''@request''"
      | (collection) "seg \<noteq> ''@request''" "seg = ''@collection''"
      | (field) "seg \<noteq> ''@request''" "seg \<noteq> ''@collection''"
      by blast
    then show ?thesis
    proof cases
      case request
      with Cons show ?thesis by (simp add: resolve_def)
    next
      case collection
      show ?thesis
      proof (cases rest)
        case Nil
        with Cons collection show ?thesis by (simp add: resolve_def)
      next
        case (Cons name rest')
        from storageUp_listRecords [OF up, of name]
        obtain rs where "listRecords st name = Inr rs" by blast
        moreover from resolve_up(2) [OF up, of "rest'" rs]
        obtain v where "resolveAll st rest' rs = Inr v" by blast
        ultimately show ?thesis
          using \<open>path = seg # rest\<close> Cons collection by (simp add: resolve_def)
      qed
    next
      case field
      show ?thesis
      proof (cases "record")
        case None
        with Cons field show ?thesis by (simp add: resolve_def)
      next
        case (Some r)
        from resolve_up(1) [OF up, of path r]
        obtain v where "resolveIn st path r = Inr v" by blast
        with Cons field Some show ?thesis by (simp add: resolve_def)
      qed
    qed
  qed
qed

lemma operand_total:
  "storageUp st \<Longrightarrow> isOperand x \<Longrightarrow> \<exists>v. operand st ctx record x = Inr v"
  by (cases x) (simp_all add: resolve_total)

lemma evaluate_total:
  "storageUp st \<Longrightarrow> parsedExpr a \<Longrightarrow> \<exists>b. evaluate st ctx record a = Inr b"
proof (induction a)
  case (Comparison op anyOf l r)
  from Comparison.prems obtain lv rv
    where "operand st ctx record l = Inr lv" and "operand st ctx record r = Inr rv"
    using operand_total [of st l ctx "record"] operand_total [of st r ctx "record"] by auto
  then show ?case by simp
next
  case (Logical lop a b)
  then obtain x y where x: "evaluate st ctx record a = Inr x"
    and y: "evaluate st ctx record b = Inr y" by auto
  then show ?case by (cases lop) auto
next
  case (Group a)
  then show ?case by simp
qed simp_all

lemma comparison_gap:
  assumes "operand st ctx record l = Inr lv" and "operand st ctx record r = Inr rv"
    and "lv = None \<or> rv = None"
  shows "evaluate st ctx record (Comparison op anyOf l r) = Inr False"
  using assms by (auto simp: compareOperands_def split: option.splits)

lemma missing_field_gap:
  assumes "seg \<noteq> ''@request''" and "seg \<noteq> ''@collection''" and "readField r seg = None"
  shows "operand st ctx (Some r) (Identifier [seg]) = Inr None"
  using assms by (simp add: resolve_def)

lemma null_target_gap:
  assumes "storageUp st" and "seg \<noteq> ''@request''" and "seg \<noteq> ''@collection''"
    and "relationOf st r seg = Some (target, ids)" and "i \<in> set ids"
    and "findRecord st target i = Inr None"
  shows "operand st ctx (Some r) (Identifier (seg # next # rest)) = Inr None"
  using assms fetchAll_null_target [OF assms(1,5,6)] by (simp add: resolve_def)

lemma unresolvable_path_gap:
  assumes "seg \<noteq> ''@request''" and "seg \<noteq> ''@collection''" and "relationOf st r seg = None"
  shows "operand st ctx (Some r) (Identifier (seg # next # rest)) = Inr None"
  using assms by (simp add: resolve_def)

text \<open>
  Claim C3. On inputs on which \<open>a\<close> and \<open>b\<close> both evaluate to a boolean, the logical
  AND node over them evaluates to the conjunction of the two results and the logical OR
  node to their disjunction (the second operand is not evaluated when the first decides,
  and the result is the same).
\<close>

theorem evaluate_logical:
  assumes "evaluate st ctx record a = Inr x" and "evaluate st ctx record b = Inr y"
  shows "evaluate st ctx record (Logical LAnd a b) = Inr (x \<and> y) \<and>
         evaluate st ctx record (Logical LOr a b) = Inr (x \<or> y)"
  using assms by simp

lemma example_isPublished:
  "evaluate exampleStores (requestOf userContext) (Some postP1) isPublished = Inr False"
  by (simp add: isPublished_def resolve_def readField_def postP1_def valuesOf_def
      compareOperands_def holds_def exampleStores_def exampleOp_def)

lemma example_isAuthor:
  "evaluate exampleStores (requestOf userContext) (Some postP1) isAuthor = Inr True"
  by (simp add: isAuthor_def resolve_def resolveRequest_def readField_def postP1_def
      valuesOf_def compareOperands_def holds_def exampleStores_def exampleOp_def
      requestOf_def userContext_def userU1_def)

theorem evaluate_logical_witness:
  "evaluate exampleStores (requestOf userContext) (Some postP1) isPublished = Inr False \<and>
   evaluate exampleStores (requestOf userContext) (Some postP1) isAuthor = Inr True \<and>
   evaluate exampleStores (requestOf userContext) (Some postP1) (Logical LAnd isPublished isAuthor)
     = Inr False \<and>
   evaluate exampleStores (requestOf userContext) (Some postP1) (Logical LOr isPublished isAuthor)
     = Inr True"
  using evaluate_logical [OF example_isPublished example_isAuthor]
        example_isPublished example_isAuthor
  by simp

text \<open>
  Claim C6. For every AST that the grammar produces, every record and every context,
  while the record store answers (a storage failure is not absent data), \<open>evaluate\<close>
  returns a boolean. Absent data does not abort: an identifier that names no field of
  the record, a relation id that has no record, and a path whose segment before the last
  is no relation of the record resolve to a gap, and a comparison with a gap on either
  side evaluates to false.
\<close>

theorem evaluate_fail_closed:
  assumes "storageUp st" and "parsedAst a"
  shows "(\<exists>b. evaluate st ctx record a = Inr b) \<and>
         (\<forall>op anyOf l r.
            isOperand l \<and> isOperand r \<and>
            (operand st ctx record l = Inr None \<or> operand st ctx record r = Inr None) \<longrightarrow>
            evaluate st ctx record (Comparison op anyOf l r) = Inr False) \<and>
         (\<forall>rec seg.
            seg \<noteq> ''@request'' \<and> seg \<noteq> ''@collection'' \<and> readField rec seg = None \<longrightarrow>
            operand st ctx (Some rec) (Identifier [seg]) = Inr None) \<and>
         (\<forall>rec seg next rest target ids i.
            seg \<noteq> ''@request'' \<and> seg \<noteq> ''@collection'' \<and>
            relationOf st rec seg = Some (target, ids) \<and> i \<in> set ids \<and>
            findRecord st target i = Inr None \<longrightarrow>
            operand st ctx (Some rec) (Identifier (seg # next # rest)) = Inr None) \<and>
         (\<forall>rec seg next rest.
            seg \<noteq> ''@request'' \<and> seg \<noteq> ''@collection'' \<and> relationOf st rec seg = None \<longrightarrow>
            operand st ctx (Some rec) (Identifier (seg # next # rest)) = Inr None)"
proof -
  have total: "\<exists>b. evaluate st ctx record a = Inr b"
  proof (cases "a = AlwaysTrue")
    case True
    then show ?thesis by auto
  next
    case False
    with assms(2) have "parsedExpr a" by (simp add: parsedAst_def)
    from evaluate_total [OF assms(1) this] show ?thesis .
  qed
  have gap: "evaluate st ctx record (Comparison op anyOf l r) = Inr False"
    if "isOperand l" "isOperand r"
       "operand st ctx record l = Inr None \<or> operand st ctx record r = Inr None"
    for op anyOf l r
  proof -
    from operand_total [OF assms(1) that(1), of ctx "record"]
    obtain lv where lv: "operand st ctx record l = Inr lv" by blast
    from operand_total [OF assms(1) that(2), of ctx "record"]
    obtain rv where rv: "operand st ctx record r = Inr rv" by blast
    from that(3) lv rv have "lv = None \<or> rv = None" by auto
    from comparison_gap [OF lv rv this] show ?thesis .
  qed
  have missing: "operand st ctx (Some rec) (Identifier [seg]) = Inr None"
    if "seg \<noteq> ''@request''" "seg \<noteq> ''@collection''" "readField rec seg = None" for rec seg
    using that by (rule missing_field_gap)
  have null: "operand st ctx (Some rec) (Identifier (seg # next # rest)) = Inr None"
    if "seg \<noteq> ''@request''" "seg \<noteq> ''@collection''"
       "relationOf st rec seg = Some (target, ids)" "i \<in> set ids"
       "findRecord st target i = Inr None"
    for rec seg "next" rest target ids i
    using assms(1) that by (rule null_target_gap)
  have unresolvable: "operand st ctx (Some rec) (Identifier (seg # next # rest)) = Inr None"
    if "seg \<noteq> ''@request''" "seg \<noteq> ''@collection''" "relationOf st rec seg = None"
    for rec seg "next" rest
    using that by (rule unresolvable_path_gap)
  show ?thesis
  proof (intro conjI allI impI)
    show "\<exists>b. evaluate st ctx record a = Inr b" by (rule total)
  next
    fix op anyOf l r
    assume "isOperand l \<and> isOperand r \<and>
            (operand st ctx record l = Inr None \<or> operand st ctx record r = Inr None)"
    then show "evaluate st ctx record (Comparison op anyOf l r) = Inr False"
      using gap [of l r op anyOf] by simp
  next
    fix rec seg
    assume "seg \<noteq> ''@request'' \<and> seg \<noteq> ''@collection'' \<and> readField rec seg = None"
    then show "operand st ctx (Some rec) (Identifier [seg]) = Inr None"
      using missing [of seg rec] by simp
  next
    fix rec seg "next" rest target ids i
    assume "seg \<noteq> ''@request'' \<and> seg \<noteq> ''@collection'' \<and>
            relationOf st rec seg = Some (target, ids) \<and> i \<in> set ids \<and>
            findRecord st target i = Inr None"
    then show "operand st ctx (Some rec) (Identifier (seg # next # rest)) = Inr None"
      using null [of seg rec target ids i "next" rest] by simp
  next
    fix rec seg "next" rest
    assume "seg \<noteq> ''@request'' \<and> seg \<noteq> ''@collection'' \<and> relationOf st rec seg = None"
    then show "operand st ctx (Some rec) (Identifier (seg # next # rest)) = Inr None"
      using unresolvable [of seg rec "next" rest] by simp
  qed
qed

lemma exampleStores_up: "storageUp exampleStores"
  by (simp add: storageUp_def exampleStores_def)

lemma example_rule_parsed: "parsedAst (Logical LOr isPublished isAuthor)"
  by (simp add: parsedAst_def isPublished_def isAuthor_def)

lemma example_guest_view:
  "evaluate exampleStores (requestOf guestContext) (Some postP1) (Logical LOr isPublished isAuthor)
     = Inr False"
  by (simp add: isPublished_def isAuthor_def resolve_def resolveRequest_def readField_def
      postP1_def valuesOf_def compareOperands_def holds_def exampleStores_def exampleOp_def
      requestOf_def guestContext_def)

theorem evaluate_fail_closed_witness:
  "storageUp exampleStores \<and> parsedAst (Logical LOr isPublished isAuthor) \<and>
   evaluate exampleStores (requestOf guestContext) (Some postP1) (Logical LOr isPublished isAuthor)
     = Inr False \<and>
   readField postP1 ''subtitle'' = None \<and>
   operand exampleStores (requestOf guestContext) (Some postP1) (Identifier [''subtitle''])
     = Inr None \<and>
   evaluate exampleStores (requestOf guestContext) (Some postP1)
      (Comparison OpNeq False (Identifier [''subtitle'']) (Literal (VText ''draft''))) = Inr False"
proof -
  note t = evaluate_fail_closed [OF exampleStores_up example_rule_parsed,
      of "requestOf guestContext" "Some postP1"]
  have miss: "readField postP1 ''subtitle'' = None"
    by (simp add: readField_def postP1_def)
  from t [THEN conjunct2, THEN conjunct2, THEN conjunct1, rule_format, of "''subtitle''" postP1]
    miss
  have gap: "operand exampleStores (requestOf guestContext) (Some postP1)
               (Identifier [''subtitle'']) = Inr None"
    by simp
  from t [THEN conjunct2, THEN conjunct1, rule_format,
      of "Identifier [''subtitle'']" "Literal (VText ''draft'')" OpNeq False] gap
  have cmp: "evaluate exampleStores (requestOf guestContext) (Some postP1)
      (Comparison OpNeq False (Identifier [''subtitle'']) (Literal (VText ''draft''))) = Inr False"
    by simp
  from exampleStores_up example_rule_parsed example_guest_view miss gap cmp
  show ?thesis by simp
qed

section \<open>Properties of the rule resolver\<close>

text \<open>
  Claim C2. For every collection, every operation, every record (or none) and every
  context whose kind is admin, \<open>canPerform\<close> allows, whatever rules the collection has.
\<close>

theorem canPerform_admin_allows:
  assumes "kind (auth ctx) = Admin"
  shows "canPerform st coll op' record ctx = Inr Allow"
  using assms by (simp add: canPerform_def)

theorem canPerform_admin_allows_witness:
  "kind (auth (requestOf adminContext)) = Admin \<and>
   ruleFor postsCollection OpDelete = Absent \<and>
   canPerform exampleStores postsCollection OpDelete (Some postP1) (requestOf adminContext)
     = Inr Allow"
  using canPerform_admin_allows
          [of "requestOf adminContext" exampleStores postsCollection OpDelete "Some postP1"]
  by (simp add: requestOf_def adminContext_def postsCollection_def)

section \<open>Properties of the auth context propagator\<close>

text \<open>
  Claim C7. For a credential that is absent, or a token that the verifier finds
  malformed, invalid or expired, the propagator produces the one auth context of kind
  guest, and the request does not fail for it: \<open>LoadAuthContext\<close> hands the request, with
  the guest context stored, to the next handler and returns what that handler returns,
  so that access is decided by the rules.
\<close>

theorem buildAuthContext_guest:
  assumes "cred = NoCredential \<or>
           (\<exists>token. (cred = UserToken token \<or> cred = AdminToken token) \<and>
                    (verifyToken ids token = TokenMalformed \<or>
                     verifyToken ids token = TokenInvalid \<or>
                     verifyToken ids token = TokenExpired))"
  shows "buildAuthContext ids cred = guestContext \<and>
         kind (buildAuthContext ids cred) = Guest \<and>
         (ReqCredential (CtxRequest c) = cred \<longrightarrow>
            LoadAuthContext ids next app c = next app (c\<lparr>CtxAuth := Some guestContext\<rparr>))"
proof -
  from assms have guest: "buildAuthContext ids cred = guestContext"
    by (auto simp: buildAuthContext_def)
  then show ?thesis
    by (simp add: LoadAuthContext_def guestContext_def)
qed

theorem buildAuthContext_guest_witness:
  "verifyToken exampleIdentities ''old'' = TokenExpired \<and>
   buildAuthContext exampleIdentities (UserToken ''old'') = guestContext \<and>
   LoadAuthContext exampleIdentities okHandler (exampleApp (Inr 1) Map.empty)
       (exampleCredContext (UserToken ''old''))
     = okHandler (exampleApp (Inr 1) Map.empty)
         ((exampleCredContext (UserToken ''old''))\<lparr>CtxAuth := Some guestContext\<rparr>) \<and>
   verifyToken exampleIdentities ''%%%'' = TokenMalformed \<and>
   kind (buildAuthContext exampleIdentities (AdminToken ''%%%'')) = Guest \<and>
   kind (buildAuthContext exampleIdentities NoCredential) = Guest \<and>
   kind (buildAuthContext exampleIdentities (UserToken ''good'')) = User"
  using buildAuthContext_guest
          [of "UserToken ''old''" exampleIdentities "exampleCredContext (UserToken ''old'')"
              okHandler "exampleApp (Inr 1) Map.empty"]
        buildAuthContext_guest [of "AdminToken ''%%%''" exampleIdentities]
        buildAuthContext_guest [of NoCredential exampleIdentities]
  by (simp add: exampleIdentities_def exampleCredContext_def buildAuthContext_def)

section \<open>Properties of the middleware chain\<close>

lemma middlewareFunc_LoadAuthContext:
  "middlewareFunc (LoadAuthContextMw ids) = LoadAuthContext ids"
  by (rule ext)+ (simp add: middlewareFunc_def LoadAuthContext_def)

lemma middlewareFunc_Inl:
  "mwEnter m app c = Inl r \<Longrightarrow> middlewareFunc m next app c = r"
  by (simp add: middlewareFunc_def)

lemma middlewareFunc_Inr:
  "mwEnter m app c = Inr (app', c') \<Longrightarrow>
     middlewareFunc m next app c = mwLeave m app c (next app' c')"
  by (simp add: middlewareFunc_def)

lemma applyMiddleware_Cons:
  "applyMiddleware h (m # ms) = m (applyMiddleware h ms)"
  by (simp add: applyMiddleware_def)

lemma runMiddleware_applyMiddleware:
  "snd (runMiddleware h ms app c) =
     applyMiddleware (\<lambda>a cc. snd (h a cc)) (map middlewareFunc ms) app c"
proof (induction ms arbitrary: app c)
  case Nil
  show ?case by (simp add: applyMiddleware_def)
next
  case (Cons m ms)
  show ?case
  proof (cases "mwEnter m app c")
    case (Inl r)
    from middlewareFunc_Inl [OF Inl] Inl show ?thesis by (simp add: applyMiddleware_Cons)
  next
    case (Inr p)
    obtain app' c' where p: "p = (app', c')" by (cases p)
    obtain tr res where run: "runMiddleware h ms app' c' = (tr, res)"
      by (cases "runMiddleware h ms app' c'")
    from Cons.IH [of app' c'] run
    have "res = applyMiddleware (\<lambda>a cc. snd (h a cc)) (map middlewareFunc ms) app' c'"
      by simp
    with middlewareFunc_Inr [OF Inr [unfolded p],
        of "applyMiddleware (\<lambda>a cc. snd (h a cc)) (map middlewareFunc ms)"]
    have "middlewareFunc m (applyMiddleware (\<lambda>a cc. snd (h a cc)) (map middlewareFunc ms)) app c
        = mwLeave m app c res" by simp
    with Inr p run show ?thesis by (simp add: applyMiddleware_Cons)
  qed
qed













end
